theory Spec2Isabelle
  imports Complex_Main "HOL-Library.Sublist"
begin

section \<open>The MPT custom pyfunc of the advanced LLM notebook\<close>

text \<open>
  The notebook \<^verbatim>\<open>custom-pyfunc-advanced-llm.ipynb\<close> defines one class, \<^verbatim>\<open>MPT\<close>, with
  the methods \<^verbatim>\<open>load_context\<close>, \<^verbatim>\<open>_build_prompt\<close> and \<^verbatim>\<open>predict\<close>. Everything else
  the class does is a call into the \<^verbatim>\<open>transformers\<close> library, which is not part of
  the repository: the library is a parameter of the model (a record of functions), and
  every call into it is an effect on an explicit external state and is logged. The input
  of predict is a pandas data frame, read by label as pandas reads it.
\<close>

subsection \<open>Python values, exceptions, the outside world\<close>

text \<open>
  The values a parameter dictionary can hold. A float is the rational its literal
  denotes: the class never computes with it, it only hands it on.
\<close>

datatype pyval = PyNone | PyBool bool | PyInt int | PyFloat rat | PyStr string

text \<open>
  The exceptions: the three the class's own expressions can raise (a missing dictionary key
  or index label, a subscript out of range, an attribute that was never assigned) and
  whatever the library raises, which the class never catches.
\<close>

datatype error = KeyError string | IndexError | AttributeError string | LibraryError string

type_synonym token = nat

text \<open>A tensor of token ids with return_tensors="pt": a batch of rows.\<close>

type_synonym tensor = "token list list"

datatype dtype = BFloat16 | Float32

text \<open>
  The state outside the adapter: the file system (a directory path mapped to its files,
  each a name and a content) and the state of the sampler's random number generator.
\<close>

record ext =
  files :: "(string \<times> (string \<times> string) list) list"
  rng :: nat

definition bundle_at :: "ext \<Rightarrow> string \<Rightarrow> (string \<times> string) list option" where
  "bundle_at x path = map_of (files x) path"

text \<open>One constructor per call site into the library, with the arguments the call passes.\<close>

datatype call =
    TokenizerFromPretrained string string
  | ConfigFromPretrained string bool
  | ModelFromPretrained string dtype bool
  | ModelTo string
  | ModelEval
  | Encode string
  | Generate tensor bool pyval pyval
  | Decode "token list" bool

type_synonym 'a lib_fun = "ext \<Rightarrow> (error + 'a) \<times> ext"

text \<open>
  The library routines the class calls. \<^verbatim>\<open>model.to\<close> and \<^verbatim>\<open>model.eval\<close> change the module
  in place and return it; here they return the changed module. The last field is pandas'
  rendering of a series as text, which an f-string uses when it is handed a series.
\<close>

record ('tk, 'cf, 'md) libraries =
  AutoTokenizer_from_pretrained :: "string \<Rightarrow> string \<Rightarrow> 'tk lib_fun"
  AutoConfig_from_pretrained :: "string \<Rightarrow> bool \<Rightarrow> 'cf lib_fun"
  AutoModelForCausalLM_from_pretrained :: "string \<Rightarrow> 'cf \<Rightarrow> dtype \<Rightarrow> bool \<Rightarrow> 'md lib_fun"
  model_to :: "'md \<Rightarrow> string \<Rightarrow> 'md lib_fun"
  model_eval :: "'md \<Rightarrow> 'md lib_fun"
  tokenizer_encode :: "'tk \<Rightarrow> string \<Rightarrow> tensor lib_fun"
  model_generate :: "'md \<Rightarrow> tensor \<Rightarrow> bool \<Rightarrow> pyval \<Rightarrow> pyval \<Rightarrow> tensor lib_fun"
  tokenizer_decode :: "'tk \<Rightarrow> token list \<Rightarrow> bool \<Rightarrow> string lib_fun"
  Series_str :: "string list \<Rightarrow> string"

subsection \<open>The adapter instance and the run state\<close>

text \<open>The attributes of an MPT instance; None is an attribute that was never assigned.\<close>

record ('tk, 'md) MPT =
  tokenizer :: "'tk option"
  model :: "'md option"

record ('tk, 'md) state =
  self :: "('tk, 'md) MPT"
  env :: ext
  trace :: "call list"

text \<open>The context mlflow passes to load_context: its artifacts dictionary.\<close>

record pycontext =
  artifacts :: "(string \<times> string) list"

text \<open>
  A data frame with an integer index: the labels of its rows, in row order, and its columns
  by name, each with one entry per row. \<^verbatim>\<open>pd.DataFrame({"prompt": [...]})\<close> has the default
  index 0, 1, ...; a frame built or filtered otherwise can carry any labels, repeated ones
  too.
\<close>

record dataframe =
  index :: "int list"
  columns :: "(string \<times> string list) list"

text \<open>
  What series[label] evaluates to: the entry of the row with that label, or, when several
  rows carry the label, the series of those rows.
\<close>

datatype cell = Scalar string | Rows "string list"

type_synonym params = "(string \<times> pyval) list"

type_synonym prediction = "(string \<times> string list) list"

subsection \<open>Sequencing statements that may raise\<close>

type_synonym ('s, 'a) act = "'s \<Rightarrow> (error + 'a) \<times> 's"

definition py_return :: "'a \<Rightarrow> ('s, 'a) act" where
  "py_return v = (\<lambda>s. (Inr v, s))"

definition py_raise :: "error \<Rightarrow> ('s, 'a) act" where
  "py_raise e = (\<lambda>s. (Inl e, s))"

definition py_bind :: "('s, 'a) act \<Rightarrow> ('a \<Rightarrow> ('s, 'b) act) \<Rightarrow> ('s, 'b) act" where
  "py_bind m f = (\<lambda>s. case m s of (Inl e, s') \<Rightarrow> (Inl e, s') | (Inr v, s') \<Rightarrow> f v s')"

text \<open>A call into the library: logged, then run on the external state.\<close>

definition lib_call :: "call \<Rightarrow> 'a lib_fun \<Rightarrow> (('tk, 'md) state, 'a) act" where
  "lib_call c f = (\<lambda>s. case f (env s) of (r, x) \<Rightarrow> (r, s\<lparr>env := x, trace := trace s @ [c]\<rparr>))"

text \<open>d[k] on a dictionary: KeyError when k is missing.\<close>

definition dict_getitem :: "(string \<times> 'v) list \<Rightarrow> string \<Rightarrow> ('s, 'v) act" where
  "dict_getitem d k = (case map_of d k of None \<Rightarrow> py_raise (KeyError k) | Some v \<Rightarrow> py_return v)"

text \<open>frame[k]: the column named k as a series (the frame's index with the column's entries).\<close>

definition frame_getitem :: "dataframe \<Rightarrow> string \<Rightarrow> ('s, int list \<times> string list) act" where
  "frame_getitem df k =
     (case map_of (columns df) k of
        None \<Rightarrow> py_raise (KeyError k)
      | Some entries \<Rightarrow> py_return (index df, entries))"

text \<open>The entries of the rows that carry a label, in row order.\<close>

definition rows_labelled :: "int \<Rightarrow> int list \<Rightarrow> 'v list \<Rightarrow> 'v list" where
  "rows_labelled label labels entries =
     map snd (filter (\<lambda>(l, v). l = label) (zip labels entries))"

text \<open>
  series[0] on a series with an integer index is a lookup by label, not by position:
  KeyError(0) when no row is labelled 0, the entry when one row is, the series of the rows
  when several are.
\<close>

definition series_getitem0 :: "int list \<times> string list \<Rightarrow> ('s, cell) act" where
  "series_getitem0 series =
     (case rows_labelled 0 (fst series) (snd series) of
        [] \<Rightarrow> py_raise (KeyError ''0'')
      | [v] \<Rightarrow> py_return (Scalar v)
      | v # w # vs \<Rightarrow> py_return (Rows (v # w # vs)))"

text \<open>t[0] on a tensor: its first row, IndexError when it has none.\<close>

definition tensor_getitem0 :: "'v list \<Rightarrow> ('s, 'v) act" where
  "tensor_getitem0 t = (case t of [] \<Rightarrow> py_raise IndexError | r # _ \<Rightarrow> py_return r)"

definition get_tokenizer :: "(('tk, 'md) state, 'tk) act" where
  "get_tokenizer = (\<lambda>s. case tokenizer (self s) of
      None \<Rightarrow> (Inl (AttributeError ''tokenizer''), s) | Some tk \<Rightarrow> (Inr tk, s))"

definition get_model :: "(('tk, 'md) state, 'md) act" where
  "get_model = (\<lambda>s. case model (self s) of
      None \<Rightarrow> (Inl (AttributeError ''model''), s) | Some md \<Rightarrow> (Inr md, s))"

definition set_tokenizer :: "'tk \<Rightarrow> (('tk, 'md) state, unit) act" where
  "set_tokenizer tk = (\<lambda>s. (Inr (), s\<lparr>self := (self s)\<lparr>tokenizer := Some tk\<rparr>\<rparr>))"

definition set_model :: "'md \<Rightarrow> (('tk, 'md) state, unit) act" where
  "set_model md = (\<lambda>s. (Inr (), s\<lparr>self := (self s)\<lparr>model := Some md\<rparr>\<rparr>))"

subsection \<open>MPT.load_context\<close>

text \<open>
  \<^verbatim>\<open>
  self.tokenizer = transformers.AutoTokenizer.from_pretrained(
      context.artifacts["snapshot"], padding_side="left")
  config = transformers.AutoConfig.from_pretrained(
      context.artifacts["snapshot"], trust_remote_code=True)
  self.model = transformers.AutoModelForCausalLM.from_pretrained(
      context.artifacts["snapshot"], config=config,
      torch_dtype=torch.bfloat16, trust_remote_code=True)
  self.model.to(device="cpu")
  self.model.eval()
  \<close>
\<close>

definition load_context ::
  "('tk, 'cf, 'md) libraries \<Rightarrow> pycontext \<Rightarrow> (('tk, 'md) state, unit) act" where
  "load_context lib ctx =
     py_bind (dict_getitem (artifacts ctx) ''snapshot'') (\<lambda>p1.
     py_bind (lib_call (TokenizerFromPretrained p1 ''left'')
                (AutoTokenizer_from_pretrained lib p1 ''left'')) (\<lambda>tk.
     py_bind (set_tokenizer tk) (\<lambda>_.
     py_bind (dict_getitem (artifacts ctx) ''snapshot'') (\<lambda>p2.
     py_bind (lib_call (ConfigFromPretrained p2 True)
                (AutoConfig_from_pretrained lib p2 True)) (\<lambda>config.
     py_bind (dict_getitem (artifacts ctx) ''snapshot'') (\<lambda>p3.
     py_bind (lib_call (ModelFromPretrained p3 BFloat16 True)
                (AutoModelForCausalLM_from_pretrained lib p3 config BFloat16 True)) (\<lambda>md.
     py_bind (set_model md) (\<lambda>_.
     py_bind get_model (\<lambda>m1.
     py_bind (lib_call (ModelTo ''cpu'') (model_to lib m1 ''cpu'')) (\<lambda>m2.
     py_bind (set_model m2) (\<lambda>_.
     py_bind get_model (\<lambda>m3.
     py_bind (lib_call ModelEval (model_eval lib m3)) (\<lambda>m4.
     set_model m4)))))))))))))"

subsection \<open>MPT._build_prompt\<close>

definition INSTRUCTION_KEY :: string where
  "INSTRUCTION_KEY = ''### Instruction:''"

definition RESPONSE_KEY :: string where
  "RESPONSE_KEY = ''### Response:''"

definition INTRO_BLURB :: string where
  "INTRO_BLURB = ''Below is an instruction that describes a task. '' @
                 ''Write a response that appropriately completes the request.''"

text \<open>
  The f-string is triple-quoted inside a method body: after the blurb every line starts
  with the eight spaces of the source's indentation, and the string ends with a line
  break and eight spaces.
\<close>

definition line_break :: string where
  "line_break = [CHR 0x0A] @ ''        ''"

definition build_prompt :: "string \<Rightarrow> string" where
  "build_prompt instruction =
     INTRO_BLURB @ line_break @ INSTRUCTION_KEY @ line_break @ instruction @ line_break @
     RESPONSE_KEY @ line_break"

subsection \<open>MPT.predict\<close>

text \<open>
  The expression \<^verbatim>\<open>params.get(key, default) if params else default\<close>: None and the empty
  dictionary are both false.
\<close>

text \<open>
  The f-string of _build_prompt formats whatever it is handed: a string as it is, a series
  as pandas renders it.
\<close>

definition format_value :: "('tk, 'cf, 'md) libraries \<Rightarrow> cell \<Rightarrow> string" where
  "format_value lib c = (case c of Scalar text \<Rightarrow> text | Rows entries \<Rightarrow> Series_str lib entries)"

definition param_or_default :: "params option \<Rightarrow> string \<Rightarrow> pyval \<Rightarrow> pyval" where
  "param_or_default params key dflt =
     (case params of
        None \<Rightarrow> dflt
      | Some ps \<Rightarrow> if ps = [] then dflt
                  else (case map_of ps key of None \<Rightarrow> dflt | Some v \<Rightarrow> v))"

text \<open>
  \<^verbatim>\<open>
  prompt = model_input["prompt"][0]
  temperature = params.get("temperature", 0.1) if params else 0.1
  max_tokens = params.get("max_tokens", 1000) if params else 1000
  prompt = self._build_prompt(prompt)
  encoded_input = self.tokenizer.encode(prompt, return_tensors="pt").to("cpu")
  output = self.model.generate(encoded_input, do_sample=True,
      temperature=temperature, max_new_tokens=max_tokens)
  generated_text = self.tokenizer.decode(output[0], skip_special_tokens=True)
  prompt_length = len(self.tokenizer.encode(prompt, return_tensors="pt")[0])
  generated_response = self.tokenizer.decode(
      output[0][prompt_length:], skip_special_tokens=True)
  return {"candidates": [generated_response]}
  \<close>
  Moving the encoded tensor to the CPU leaves its entries as they are.
\<close>

definition predict ::
  "('tk, 'cf, 'md) libraries \<Rightarrow> dataframe \<Rightarrow> params option \<Rightarrow>
     (('tk, 'md) state, prediction) act" where
  "predict lib model_input params =
     py_bind (frame_getitem model_input ''prompt'') (\<lambda>series.
     py_bind (series_getitem0 series) (\<lambda>instruction.
     let temperature = param_or_default params ''temperature'' (PyFloat (1 / 10));
         max_tokens = param_or_default params ''max_tokens'' (PyInt 1000);
         prompt = build_prompt (format_value lib instruction)
     in
     py_bind get_tokenizer (\<lambda>tk1.
     py_bind (lib_call (Encode prompt) (tokenizer_encode lib tk1 prompt)) (\<lambda>encoded_input.
     py_bind get_model (\<lambda>md.
     py_bind (lib_call (Generate encoded_input True temperature max_tokens)
                (model_generate lib md encoded_input True temperature max_tokens)) (\<lambda>output.
     py_bind get_tokenizer (\<lambda>tk2.
     py_bind (tensor_getitem0 output) (\<lambda>row.
     py_bind (lib_call (Decode row True) (tokenizer_decode lib tk2 row True)) (\<lambda>generated_text.
     py_bind get_tokenizer (\<lambda>tk3.
     py_bind (lib_call (Encode prompt) (tokenizer_encode lib tk3 prompt)) (\<lambda>encoded_again.
     py_bind (tensor_getitem0 encoded_again) (\<lambda>prompt_row.
     let prompt_length = length prompt_row in
     py_bind get_tokenizer (\<lambda>tk4.
     py_bind (tensor_getitem0 output) (\<lambda>row'.
     py_bind (lib_call (Decode (drop prompt_length row') True)
                (tokenizer_decode lib tk4 (drop prompt_length row') True)) (\<lambda>generated_response.
     py_return [(''candidates'', [generated_response])])))))))))))))))"

text \<open>A newly constructed MPT(): the class has no constructor, so no attribute is set.\<close>

definition fresh :: "ext \<Rightarrow> ('tk, 'md) state" where
  "fresh x = \<lparr> self = \<lparr> tokenizer = None, model = None \<rparr>, env = x, trace = [] \<rparr>"

subsection \<open>Properties of the library that some statements assume\<close>

text \<open>No routine of the library changes the directory at the given path.\<close>

definition library_keeps_bundle :: "('tk, 'cf, 'md) libraries \<Rightarrow> string \<Rightarrow> bool" where
  "library_keeps_bundle lib path \<longleftrightarrow>
     (\<forall>p side x. bundle_at (snd (AutoTokenizer_from_pretrained lib p side x)) path = bundle_at x path) \<and>
     (\<forall>p trust x. bundle_at (snd (AutoConfig_from_pretrained lib p trust x)) path = bundle_at x path) \<and>
     (\<forall>p config dt trust x.
        bundle_at (snd (AutoModelForCausalLM_from_pretrained lib p config dt trust x)) path
          = bundle_at x path) \<and>
     (\<forall>md device x. bundle_at (snd (model_to lib md device x)) path = bundle_at x path) \<and>
     (\<forall>md x. bundle_at (snd (model_eval lib md x)) path = bundle_at x path) \<and>
     (\<forall>tk text x. bundle_at (snd (tokenizer_encode lib tk text x)) path = bundle_at x path) \<and>
     (\<forall>md input ds t m x.
        bundle_at (snd (model_generate lib md input ds t m x)) path = bundle_at x path) \<and>
     (\<forall>tk toks skip x. bundle_at (snd (tokenizer_decode lib tk toks skip x)) path = bundle_at x path)"

text \<open>
  The routines predict calls touch nothing outside but the state of the sampler's random
  number generator.
\<close>

definition inference_changes_only_rng :: "('tk, 'cf, 'md) libraries \<Rightarrow> bool" where
  "inference_changes_only_rng lib \<longleftrightarrow>
     (\<forall>tk text x. \<exists>r. snd (tokenizer_encode lib tk text x) = x\<lparr>rng := r\<rparr>) \<and>
     (\<forall>md input ds t m x. \<exists>r. snd (model_generate lib md input ds t m x) = x\<lparr>rng := r\<rparr>) \<and>
     (\<forall>tk toks skip x. \<exists>r. snd (tokenizer_decode lib tk toks skip x) = x\<lparr>rng := r\<rparr>)"

text \<open>
  The caller fixing the sampler's seed before a call (torch.manual_seed): the scenario of
  the reproducibility property, not a statement of the class.
\<close>

definition reseed :: "nat \<Rightarrow> ('tk, 'md) state \<Rightarrow> ('tk, 'md) state" where
  "reseed seed s = s\<lparr>env := (env s)\<lparr>rng := seed\<rparr>\<rparr>"

text \<open>
  The entries of the prompt column in the rows labelled 0, if the frame has that column:
  what the first statement of predict looks up.
\<close>

definition prompt_rows :: "dataframe \<Rightarrow> string list option" where
  "prompt_rows df =
     (case map_of (columns df) ''prompt'' of
        None \<Rightarrow> None
      | Some entries \<Rightarrow> Some (rows_labelled 0 (index df) entries))"

text \<open>A parameter key that the caller did not supply.\<close>

definition key_absent :: "params option \<Rightarrow> string \<Rightarrow> bool" where
  "key_absent params key = (case params of None \<Rightarrow> True | Some ps \<Rightarrow> map_of ps key = None)"

text \<open>An invariant of the run state that an action keeps.\<close>

definition preserves :: "('s \<Rightarrow> bool) \<Rightarrow> ('s, 'a) act \<Rightarrow> bool" where
  "preserves I m \<longleftrightarrow> (\<forall>s. I s \<longrightarrow> I (snd (m s)))"

text \<open>An action whose result does not depend on the calls logged before it.\<close>

definition trace_blind :: "(('tk, 'md) state, 'a) act \<Rightarrow> bool" where
  "trace_blind m \<longleftrightarrow>
     (\<forall>s t. m (s\<lparr>trace := t @ trace s\<rparr>) =
        (case m s of (r, s') \<Rightarrow> (r, s'\<lparr>trace := t @ trace s'\<rparr>)))"

subsection \<open>A small library to run the class on\<close>

text \<open>
  A stand-in for the library, for running the definitions on concrete inputs. A loader
  reads one file of the directory and fails when it is missing. The tokenizer maps a
  character to its code; an empty vocabulary cannot encode, and a token beyond 255 cannot be
  decoded. The model answers with the text of its weights file followed by one token drawn
  from the generator, and rejects a temperature that is not a positive float. A series is
  rendered as its entries put together.
\<close>

definition demo_read :: "ext \<Rightarrow> string \<Rightarrow> string \<Rightarrow> error + string" where
  "demo_read x path name =
     (case map_of (files x) path of
        None \<Rightarrow> Inl (LibraryError ''no such directory'')
      | Some dir \<Rightarrow> (case map_of dir name of
                      None \<Rightarrow> Inl (LibraryError name)
                    | Some content \<Rightarrow> Inr content))"

definition demo_generate ::
  "string \<Rightarrow> tensor \<Rightarrow> bool \<Rightarrow> pyval \<Rightarrow> pyval \<Rightarrow> tensor lib_fun" where
  "demo_generate md input do_sample temperature max_new_tokens x =
     (case temperature of
        PyFloat q \<Rightarrow>
          if 0 < q
          then (Inr (map (\<lambda>r. r @ map of_char md @ [rng x]) input), x\<lparr>rng := Suc (rng x)\<rparr>)
          else (Inl (LibraryError ''temperature''), x)
      | _ \<Rightarrow> (Inl (LibraryError ''temperature''), x))"

definition demo_lib :: "(string, string, string) libraries" where
  "demo_lib = \<lparr>
     AutoTokenizer_from_pretrained = (\<lambda>path side x. (demo_read x path ''tokenizer.json'', x)),
     AutoConfig_from_pretrained = (\<lambda>path trust x. (demo_read x path ''config.json'', x)),
     AutoModelForCausalLM_from_pretrained =
       (\<lambda>path config dt trust x. (demo_read x path ''pytorch_model.bin'', x)),
     model_to = (\<lambda>md device x. (Inr md, x)),
     model_eval = (\<lambda>md x. (Inr md, x)),
     tokenizer_encode = (\<lambda>tk text x.
        if tk = [] then (Inl (LibraryError ''encode''), x) else (Inr [map of_char text], x)),
     model_generate = demo_generate,
     tokenizer_decode = (\<lambda>tk toks skip x.
        if list_all (\<lambda>t. t < 256) toks then (Inr (map char_of toks), x)
        else (Inl (LibraryError ''decode''), x)),
     Series_str = concat \<rparr>"

text \<open>The stand-in with a tokenizer that, in addition, cannot decode a line break.\<close>

definition strict_lib :: "(string, string, string) libraries" where
  "strict_lib = demo_lib
     \<lparr>tokenizer_decode := (\<lambda>tk toks skip x.
        if 10 \<in> set toks then (Inl (LibraryError ''line break''), x)
        else tokenizer_decode demo_lib tk toks skip x)\<rparr>"

definition demo_bundle :: "string \<Rightarrow> (string \<times> string) list" where
  "demo_bundle weights =
     [(''tokenizer.json'', ''vocab''), (''config.json'', ''mpt''), (''pytorch_model.bin'', weights)]"

definition demo_ext :: "string \<Rightarrow> nat \<Rightarrow> ext" where
  "demo_ext weights seed = \<lparr> files = [(''mpt-7b'', demo_bundle weights)], rng = seed \<rparr>"

definition demo_ctx :: pycontext where
  "demo_ctx = \<lparr> artifacts = [(''snapshot'', ''mpt-7b'')] \<rparr>"

text \<open>The instance after a successful load of the stand-in bundle.\<close>

definition demo_loaded :: "string \<Rightarrow> nat \<Rightarrow> (string, string) state" where
  "demo_loaded weights seed = snd (load_context demo_lib demo_ctx (fresh (demo_ext weights seed)))"

text \<open>The notebook's input example, pd.DataFrame({"prompt": ["What is machine learning?"]}).\<close>

definition demo_input :: dataframe where
  "demo_input = \<lparr> index = [0], columns = [(''prompt'', [''What is machine learning?''])] \<rparr>"

section \<open>Running the definitions\<close>

lemmas act_defs = py_bind_def py_return_def py_raise_def lib_call_def dict_getitem_def
  frame_getitem_def series_getitem0_def tensor_getitem0_def get_tokenizer_def get_model_def set_tokenizer_def
  set_model_def

lemma predict_no_prompt_column:
  "map_of (columns model_input) ''prompt'' = None \<Longrightarrow>
     predict lib model_input params s = (Inl (KeyError ''prompt''), s)"
  by (simp add: predict_def act_defs)

lemma predict_no_row_labelled_0:
  "prompt_rows model_input = Some [] \<Longrightarrow>
     predict lib model_input params s = (Inl (KeyError ''0''), s)"
  by (simp add: predict_def act_defs prompt_rows_def split: option.splits)

lemma predict_empty_prompt_column:
  "map_of (columns model_input) ''prompt'' = Some [] \<Longrightarrow>
     predict lib model_input params s = (Inl (KeyError ''0''), s)"
  by (simp add: predict_no_row_labelled_0 prompt_rows_def rows_labelled_def)

lemma param_or_default_absent:
  "key_absent params key \<Longrightarrow> param_or_default params key dflt = dflt"
  by (simp add: param_or_default_def key_absent_def split: option.splits)

text \<open>The run of predict when the attributes are set and every call into the library succeeds.\<close>

lemma predict_run:
  assumes "prompt_rows model_input = Some [p]"
    and "tokenizer (self s) = Some tk"
    and "model (self s) = Some md"
    and "tokenizer_encode lib tk (build_prompt p) (env s) = (Inr encoded, x1)"
    and "model_generate lib md encoded True
           (param_or_default params ''temperature'' (PyFloat (1 / 10)))
           (param_or_default params ''max_tokens'' (PyInt 1000)) x1 = (Inr (row # rows), x2)"
    and "tokenizer_decode lib tk row True x2 = (Inr full_text, x3)"
    and "tokenizer_encode lib tk (build_prompt p) x3 = (Inr (prow # prows), x4)"
    and "tokenizer_decode lib tk (drop (length prow) row) True x4 = (Inr response, x5)"
  shows "predict lib model_input params s =
     (Inr [(''candidates'', [response])],
      s\<lparr>env := x5,
        trace := trace s @
          [Encode (build_prompt p),
           Generate encoded True (param_or_default params ''temperature'' (PyFloat (1 / 10)))
             (param_or_default params ''max_tokens'' (PyInt 1000)),
           Decode row True,
           Encode (build_prompt p),
           Decode (drop (length prow) row) True]\<rparr>)"
  using assms
  by (simp add: predict_def act_defs Let_def prompt_rows_def format_value_def split: option.splits)

text \<open>Every generation call predict makes has the arguments predict resolved.\<close>

lemma predict_generate_call:
  assumes "trace (snd (predict lib model_input params s)) = trace s @ cs"
    and "Generate input do_sample t m \<in> set cs"
  shows "do_sample = True \<and> t = param_or_default params ''temperature'' (PyFloat (1 / 10)) \<and>
         m = param_or_default params ''max_tokens'' (PyInt 1000)"
  using assms
  by (auto simp: predict_def act_defs Let_def split: option.splits sum.splits prod.splits list.splits)

text \<open>
  The first calls predict makes: with a tokenizer it encodes the prompt built from the entry
  it looked up, and with a model and an encoding it goes on to generate.
\<close>

lemma predict_first_call:
  assumes "prompt_rows model_input = Some [p]"
    and "tokenizer (self s) = Some tk"
  shows "\<exists>cs. trace (snd (predict lib model_input params s))
           = trace s @ Encode (build_prompt p) # cs"
  using assms
  by (auto simp: predict_def act_defs Let_def prompt_rows_def format_value_def
      split: option.splits sum.splits prod.splits list.splits)

lemma predict_reaches_generate:
  assumes "prompt_rows model_input = Some [p]"
    and "tokenizer (self s) = Some tk"
    and "model (self s) = Some md"
    and "tokenizer_encode lib tk (build_prompt p) (env s) = (Inr encoded, x1)"
  shows "\<exists>cs. trace (snd (predict lib model_input params s))
           = trace s @ Encode (build_prompt p) #
               Generate encoded True (param_or_default params ''temperature'' (PyFloat (1 / 10)))
                 (param_or_default params ''max_tokens'' (PyInt 1000)) # cs"
  using assms
  by (auto simp: predict_def act_defs Let_def prompt_rows_def format_value_def
      split: option.splits sum.splits prod.splits list.splits)

text \<open>predict looks at its input only through the prompt entries of the rows labelled 0.\<close>

lemma predict_depends_on_prompt_rows:
  assumes "prompt_rows model_input = prompt_rows model_input'"
  shows "predict lib model_input params = predict lib model_input' params"
  using assms
  by (auto simp: predict_def frame_getitem_def series_getitem0_def prompt_rows_def py_bind_def
      py_return_def py_raise_def split: option.splits)

text \<open>The runs of predict in which a call into the library raises.\<close>

lemma predict_encode_error:
  assumes "prompt_rows model_input = Some [p]"
    and "tokenizer (self s) = Some tk"
    and "tokenizer_encode lib tk (build_prompt p) (env s) = (Inl e, x1)"
  shows "predict lib model_input params s =
     (Inl e, s\<lparr>env := x1, trace := trace s @ [Encode (build_prompt p)]\<rparr>)"
  using assms
  by (simp add: predict_def act_defs Let_def prompt_rows_def format_value_def split: option.splits)

lemma predict_generate_error:
  assumes "prompt_rows model_input = Some [p]"
    and "tokenizer (self s) = Some tk"
    and "model (self s) = Some md"
    and "tokenizer_encode lib tk (build_prompt p) (env s) = (Inr encoded, x1)"
    and "model_generate lib md encoded True
           (param_or_default params ''temperature'' (PyFloat (1 / 10)))
           (param_or_default params ''max_tokens'' (PyInt 1000)) x1 = (Inl e, x2)"
  shows "predict lib model_input params s =
     (Inl e, s\<lparr>env := x2, trace := trace s @
        [Encode (build_prompt p),
         Generate encoded True (param_or_default params ''temperature'' (PyFloat (1 / 10)))
           (param_or_default params ''max_tokens'' (PyInt 1000))]\<rparr>)"
  using assms
  by (simp add: predict_def act_defs Let_def prompt_rows_def format_value_def split: option.splits)

lemma predict_decode_error:
  assumes "prompt_rows model_input = Some [p]"
    and "tokenizer (self s) = Some tk"
    and "model (self s) = Some md"
    and "tokenizer_encode lib tk (build_prompt p) (env s) = (Inr encoded, x1)"
    and "model_generate lib md encoded True
           (param_or_default params ''temperature'' (PyFloat (1 / 10)))
           (param_or_default params ''max_tokens'' (PyInt 1000)) x1 = (Inr (row # rows), x2)"
    and "tokenizer_decode lib tk row True x2 = (Inl e, x3)"
  shows "predict lib model_input params s =
     (Inl e, s\<lparr>env := x3, trace := trace s @
        [Encode (build_prompt p),
         Generate encoded True (param_or_default params ''temperature'' (PyFloat (1 / 10)))
           (param_or_default params ''max_tokens'' (PyInt 1000)),
         Decode row True]\<rparr>)"
  using assms
  by (simp add: predict_def act_defs Let_def prompt_rows_def format_value_def split: option.splits)

lemma predict_reencode_error:
  assumes "prompt_rows model_input = Some [p]"
    and "tokenizer (self s) = Some tk"
    and "model (self s) = Some md"
    and "tokenizer_encode lib tk (build_prompt p) (env s) = (Inr encoded, x1)"
    and "model_generate lib md encoded True
           (param_or_default params ''temperature'' (PyFloat (1 / 10)))
           (param_or_default params ''max_tokens'' (PyInt 1000)) x1 = (Inr (row # rows), x2)"
    and "tokenizer_decode lib tk row True x2 = (Inr full_text, x3)"
    and "tokenizer_encode lib tk (build_prompt p) x3 = (Inl e, x4)"
  shows "predict lib model_input params s =
     (Inl e, s\<lparr>env := x4, trace := trace s @
        [Encode (build_prompt p),
         Generate encoded True (param_or_default params ''temperature'' (PyFloat (1 / 10)))
           (param_or_default params ''max_tokens'' (PyInt 1000)),
         Decode row True,
         Encode (build_prompt p)]\<rparr>)"
  using assms
  by (simp add: predict_def act_defs Let_def prompt_rows_def format_value_def split: option.splits)

lemma predict_final_decode_error:
  assumes "prompt_rows model_input = Some [p]"
    and "tokenizer (self s) = Some tk"
    and "model (self s) = Some md"
    and "tokenizer_encode lib tk (build_prompt p) (env s) = (Inr encoded, x1)"
    and "model_generate lib md encoded True
           (param_or_default params ''temperature'' (PyFloat (1 / 10)))
           (param_or_default params ''max_tokens'' (PyInt 1000)) x1 = (Inr (row # rows), x2)"
    and "tokenizer_decode lib tk row True x2 = (Inr full_text, x3)"
    and "tokenizer_encode lib tk (build_prompt p) x3 = (Inr (prow # prows), x4)"
    and "tokenizer_decode lib tk (drop (length prow) row) True x4 = (Inl e, x5)"
  shows "predict lib model_input params s =
     (Inl e, s\<lparr>env := x5, trace := trace s @
        [Encode (build_prompt p),
         Generate encoded True (param_or_default params ''temperature'' (PyFloat (1 / 10)))
           (param_or_default params ''max_tokens'' (PyInt 1000)),
         Decode row True,
         Encode (build_prompt p),
         Decode (drop (length prow) row) True]\<rparr>)"
  using assms
  by (simp add: predict_def act_defs Let_def prompt_rows_def format_value_def split: option.splits)

text \<open>The runs of load_context in which a loading routine raises.\<close>

lemma load_context_tokenizer_error:
  assumes "map_of (artifacts ctx) ''snapshot'' = Some path"
    and "AutoTokenizer_from_pretrained lib path ''left'' (env s) = (Inl e, x1)"
  shows "load_context lib ctx s =
     (Inl e, s\<lparr>env := x1, trace := trace s @ [TokenizerFromPretrained path ''left'']\<rparr>)"
  using assms by (simp add: load_context_def act_defs)

lemma load_context_config_error:
  assumes "map_of (artifacts ctx) ''snapshot'' = Some path"
    and "AutoTokenizer_from_pretrained lib path ''left'' (env s) = (Inr tk, x1)"
    and "AutoConfig_from_pretrained lib path True x1 = (Inl e, x2)"
  shows "load_context lib ctx s =
     (Inl e, s\<lparr>self := (self s)\<lparr>tokenizer := Some tk\<rparr>, env := x2,
              trace := trace s @ [TokenizerFromPretrained path ''left'',
                                  ConfigFromPretrained path True]\<rparr>)"
  using assms by (simp add: load_context_def act_defs)

lemma load_context_model_error:
  assumes "map_of (artifacts ctx) ''snapshot'' = Some path"
    and "AutoTokenizer_from_pretrained lib path ''left'' (env s) = (Inr tk, x1)"
    and "AutoConfig_from_pretrained lib path True x1 = (Inr config, x2)"
    and "AutoModelForCausalLM_from_pretrained lib path config BFloat16 True x2 = (Inl e, x3)"
  shows "load_context lib ctx s =
     (Inl e, s\<lparr>self := (self s)\<lparr>tokenizer := Some tk\<rparr>, env := x3,
              trace := trace s @ [TokenizerFromPretrained path ''left'',
                                  ConfigFromPretrained path True,
                                  ModelFromPretrained path BFloat16 True]\<rparr>)"
  using assms by (simp add: load_context_def act_defs)

text \<open>A successful load has assigned both attributes; without a model predict raises.\<close>

lemma load_context_sets_attributes:
  "load_context lib ctx s = (Inr u, s') \<Longrightarrow>
     \<exists>tk md. tokenizer (self s') = Some tk \<and> model (self s') = Some md"
  by (auto simp: load_context_def act_defs split: option.splits sum.splits prod.splits)

lemma predict_needs_model:
  "model (self t) = None \<Longrightarrow> isl (fst (predict lib model_input params t))"
  by (auto simp: predict_def act_defs Let_def split: option.splits sum.splits prod.splits list.splits)

subsection \<open>Invariants of a run\<close>

lemma preserves_return: "preserves I (py_return v)"
  by (simp add: preserves_def py_return_def)

lemma preserves_raise: "preserves I (py_raise e)"
  by (simp add: preserves_def py_raise_def)

lemma preserves_bind:
  assumes "preserves I m" and "\<And>v. preserves I (f v)"
  shows "preserves I (py_bind m f)"
proof -
  have "I (snd (py_bind m f s))" if "I s" for s
  proof (cases "m s")
    case (Pair r s')
    from assms(1) that Pair have s': "I s'"
      by (auto simp: preserves_def)
    show ?thesis
    proof (cases r)
      case (Inl e)
      with Pair s' show ?thesis
        by (simp add: py_bind_def)
    next
      case (Inr v)
      with Pair s' assms(2) [of v] show ?thesis
        by (simp add: py_bind_def preserves_def)
    qed
  qed
  then show ?thesis
    by (simp add: preserves_def)
qed

lemma preserves_dict_getitem: "preserves I (dict_getitem d k)"
  by (simp add: dict_getitem_def preserves_return preserves_raise split: option.splits)

lemma preserves_frame_getitem: "preserves I (frame_getitem df k)"
  by (simp add: frame_getitem_def preserves_return preserves_raise split: option.splits)

lemma preserves_series_getitem0: "preserves I (series_getitem0 series)"
  by (simp add: series_getitem0_def preserves_return preserves_raise split: list.splits)

lemma preserves_tensor_getitem0: "preserves I (tensor_getitem0 t)"
  by (simp add: tensor_getitem0_def preserves_return preserves_raise split: list.splits)

lemma preserves_get_tokenizer: "preserves I get_tokenizer"
  by (simp add: preserves_def get_tokenizer_def split: option.splits)

lemma preserves_get_model: "preserves I get_model"
  by (simp add: preserves_def get_model_def split: option.splits)

lemma preserves_lib_call:
  "(\<And>s. I s \<Longrightarrow> I (s\<lparr>env := snd (f (env s)), trace := trace s @ [c]\<rparr>)) \<Longrightarrow>
     preserves I (lib_call c f)"
  by (auto simp: preserves_def lib_call_def split: prod.splits dest: sndI)

lemma preserves_set_tokenizer:
  "(\<And>s. I s \<Longrightarrow> I (s\<lparr>self := (self s)\<lparr>tokenizer := Some tk\<rparr>\<rparr>)) \<Longrightarrow>
     preserves I (set_tokenizer tk)"
  by (simp add: preserves_def set_tokenizer_def)

lemma preserves_set_model:
  "(\<And>s. I s \<Longrightarrow> I (s\<lparr>self := (self s)\<lparr>model := Some md\<rparr>\<rparr>)) \<Longrightarrow>
     preserves I (set_model md)"
  by (simp add: preserves_def set_model_def)

lemmas preserves_intros = preserves_bind preserves_return preserves_raise preserves_dict_getitem
  preserves_frame_getitem
  preserves_series_getitem0 preserves_tensor_getitem0 preserves_get_tokenizer preserves_get_model
  preserves_lib_call preserves_set_tokenizer preserves_set_model

lemma load_context_keeps_bundle:
  assumes "library_keeps_bundle lib path"
  shows "preserves (\<lambda>s. bundle_at (env s) path = b) (load_context lib ctx)"
  unfolding load_context_def
  using assms by (intro preserves_intros) (simp_all add: library_keeps_bundle_def)

lemma predict_keeps_bundle:
  assumes "library_keeps_bundle lib path"
  shows "preserves (\<lambda>s. bundle_at (env s) path = b) (predict lib model_input params)"
  unfolding predict_def Let_def
  using assms by (intro preserves_intros) (simp_all add: library_keeps_bundle_def)

lemma lib_call_changes_only_rng:
  assumes "\<And>x. \<exists>r. snd (f x) = x\<lparr>rng := r\<rparr>"
  shows "preserves (\<lambda>s. self s = (me :: ('tk, 'md) MPT) \<and> (\<exists>r. env s = x0\<lparr>rng := r\<rparr>))
           (lib_call c f)"
proof (rule preserves_lib_call)
  fix s :: "('tk, 'md) state"
  assume "self s = me \<and> (\<exists>r. env s = x0\<lparr>rng := r\<rparr>)"
  then obtain r where me: "self s = me" and env: "env s = x0\<lparr>rng := r\<rparr>"
    by blast
  from assms [of "env s"] obtain r' where "snd (f (env s)) = (env s)\<lparr>rng := r'\<rparr>"
    by blast
  with env have "snd (f (env s)) = x0\<lparr>rng := r'\<rparr>"
    by simp
  with me show "self (s\<lparr>env := snd (f (env s)), trace := trace s @ [c]\<rparr>) = me \<and>
      (\<exists>r. env (s\<lparr>env := snd (f (env s)), trace := trace s @ [c]\<rparr>) = x0\<lparr>rng := r\<rparr>)"
    by auto
qed

lemma predict_changes_only_rng:
  assumes "inference_changes_only_rng lib"
  shows "preserves (\<lambda>s. self s = me \<and> (\<exists>r. env s = x0\<lparr>rng := r\<rparr>))
           (predict lib model_input params)"
  unfolding predict_def Let_def
  using assms
  by (intro preserves_bind preserves_return preserves_frame_getitem preserves_series_getitem0
        preserves_tensor_getitem0 preserves_get_tokenizer preserves_get_model
        lib_call_changes_only_rng)
     (simp_all add: inference_changes_only_rng_def)

subsection \<open>The log does not steer a run\<close>

lemma trace_blind_return: "trace_blind (py_return v)"
  by (simp add: trace_blind_def py_return_def)

lemma trace_blind_raise: "trace_blind (py_raise e)"
  by (simp add: trace_blind_def py_raise_def)

lemma trace_blind_bind:
  assumes "trace_blind m" and "\<And>v. trace_blind (f v)"
  shows "trace_blind (py_bind m f)"
proof -
  have "py_bind m f (s\<lparr>trace := t @ trace s\<rparr>) =
      (case py_bind m f s of (r, s') \<Rightarrow> (r, s'\<lparr>trace := t @ trace s'\<rparr>))" for s t
  proof (cases "m s")
    case (Pair r s')
    with assms(1) have shifted: "m (s\<lparr>trace := t @ trace s\<rparr>) = (r, s'\<lparr>trace := t @ trace s'\<rparr>)"
      by (simp add: trace_blind_def)
    show ?thesis
    proof (cases r)
      case (Inl e)
      with Pair shifted show ?thesis
        by (simp add: py_bind_def)
    next
      case (Inr v)
      with Pair shifted assms(2) [of v] show ?thesis
        by (simp add: py_bind_def trace_blind_def)
    qed
  qed
  then show ?thesis
    by (simp add: trace_blind_def)
qed

lemma trace_blind_dict_getitem: "trace_blind (dict_getitem d k)"
  by (simp add: dict_getitem_def trace_blind_return trace_blind_raise split: option.splits)

lemma trace_blind_frame_getitem: "trace_blind (frame_getitem df k)"
  by (simp add: frame_getitem_def trace_blind_return trace_blind_raise split: option.splits)

lemma trace_blind_series_getitem0: "trace_blind (series_getitem0 series)"
  by (simp add: series_getitem0_def trace_blind_return trace_blind_raise split: list.splits)

lemma trace_blind_tensor_getitem0: "trace_blind (tensor_getitem0 t)"
  by (simp add: tensor_getitem0_def trace_blind_return trace_blind_raise split: list.splits)

lemma trace_blind_get_tokenizer: "trace_blind get_tokenizer"
  by (simp add: trace_blind_def get_tokenizer_def split: option.splits)

lemma trace_blind_get_model: "trace_blind get_model"
  by (simp add: trace_blind_def get_model_def split: option.splits)

lemma trace_blind_lib_call: "trace_blind (lib_call c f)"
  by (simp add: trace_blind_def lib_call_def split: prod.splits)

lemmas trace_blind_intros = trace_blind_bind trace_blind_return trace_blind_raise
  trace_blind_frame_getitem
  trace_blind_dict_getitem trace_blind_series_getitem0 trace_blind_tensor_getitem0
  trace_blind_get_tokenizer trace_blind_get_model trace_blind_lib_call

lemma predict_trace_blind: "trace_blind (predict lib model_input params)"
  unfolding predict_def Let_def by (intro trace_blind_intros)

text \<open>predict from a state is predict from that state with an empty log, the log put back.\<close>

lemma predict_from_empty_log:
  "predict lib model_input params s =
     (case predict lib model_input params (s\<lparr>trace := []\<rparr>) of
        (r, s') \<Rightarrow> (r, s'\<lparr>trace := trace s @ trace s'\<rparr>))"
  using predict_trace_blind [of lib model_input params, unfolded trace_blind_def,
      rule_format, where s = "s\<lparr>trace := []\<rparr>" and t = "trace s"]
  by simp

lemma predict_result_ignores_log:
  assumes "self s = self s'" and "env s = env s'"
  shows "fst (predict lib model_input params s) = fst (predict lib model_input params s')"
proof -
  from assms have "s\<lparr>trace := []\<rparr> = s'\<lparr>trace := []\<rparr>"
    by (intro state.equality) simp_all
  then show ?thesis
    by (simp add: predict_from_empty_log [of lib model_input params s]
        predict_from_empty_log [of lib model_input params s'] split: prod.splits)
qed

lemma predict_log_extends:
  "\<exists>cs. trace (snd (predict lib model_input params s)) = trace s @ cs"
  by (simp add: predict_from_empty_log [of lib model_input params s] split: prod.splits)

subsection \<open>Runs on the stand-in library\<close>

lemma demo_load:
  "load_context demo_lib demo_ctx (fresh (demo_ext w seed)) =
     (Inr (),
      \<lparr> self = \<lparr> tokenizer = Some ''vocab'', model = Some w \<rparr>,
        env = demo_ext w seed,
        trace = [TokenizerFromPretrained ''mpt-7b'' ''left'', ConfigFromPretrained ''mpt-7b'' True,
                 ModelFromPretrained ''mpt-7b'' BFloat16 True, ModelTo ''cpu'', ModelEval] \<rparr>)"
  by (simp add: load_context_def act_defs demo_lib_def demo_ctx_def demo_ext_def demo_bundle_def
      demo_read_def fresh_def)

lemma demo_loaded_eq:
  "demo_loaded w seed =
      \<lparr> self = \<lparr> tokenizer = Some ''vocab'', model = Some w \<rparr>,
        env = demo_ext w seed,
        trace = [TokenizerFromPretrained ''mpt-7b'' ''left'', ConfigFromPretrained ''mpt-7b'' True,
                 ModelFromPretrained ''mpt-7b'' BFloat16 True, ModelTo ''cpu'', ModelEval] \<rparr>"
  by (simp add: demo_loaded_def demo_load)

lemma demo_encode:
  "tk \<noteq> [] \<Longrightarrow> tokenizer_encode demo_lib tk text x = (Inr [map of_char text], x)"
  by (simp add: demo_lib_def)

lemma demo_generate_ok:
  "0 < q \<Longrightarrow> model_generate demo_lib md input ds (PyFloat q) m x =
     (Inr (map (\<lambda>r. r @ map of_char md @ [rng x]) input), x\<lparr>rng := Suc (rng x)\<rparr>)"
  by (simp add: demo_lib_def demo_generate_def)

lemma demo_decode:
  "list_all (\<lambda>t. t < 256) toks \<Longrightarrow>
     tokenizer_decode demo_lib tk toks skip x = (Inr (map char_of toks), x)"
  by (simp add: demo_lib_def)

lemma demo_tokens_small:
  "n < 256 \<Longrightarrow> list_all (\<lambda>t. t < 256) (map of_char text @ [n :: nat])"
  by (auto simp: list_all_iff)

lemma char_of_33: "char_of (33 :: nat) = CHR ''!''"
  by code_simp

lemma char_of_34: "char_of (34 :: nat) = CHR 0x22"
  by code_simp

lemma demo_predict:
  assumes "prompt_rows model_input = Some [p]"
    and "tokenizer (self s) = Some tk" and "tk \<noteq> []"
    and "model (self s) = Some md"
    and "param_or_default params ''temperature'' (PyFloat (1 / 10)) = PyFloat q" and "0 < q"
    and "rng (env s) < 256"
  shows "predict demo_lib model_input params s =
     (Inr [(''candidates'', [md @ [char_of (rng (env s))]])],
      s\<lparr>env := (env s)\<lparr>rng := Suc (rng (env s))\<rparr>,
        trace := trace s @
          [Encode (build_prompt p),
           Generate [map of_char (build_prompt p)] True (PyFloat q)
             (param_or_default params ''max_tokens'' (PyInt 1000)),
           Decode (map of_char (build_prompt p @ md) @ [rng (env s)]) True,
           Encode (build_prompt p),
           Decode (map of_char md @ [rng (env s)]) True]\<rparr>)"
proof -
  let ?P = "build_prompt p"
  let ?x = "(env s)\<lparr>rng := Suc (rng (env s))\<rparr>"
  let ?row = "map of_char (?P @ md) @ [rng (env s)]"
  have enc: "tokenizer_encode demo_lib tk ?P (env s) = (Inr [map of_char ?P], env s)"
    using assms(3) by (rule demo_encode)
  have gen: "model_generate demo_lib md [map of_char ?P] True
      (param_or_default params ''temperature'' (PyFloat (1 / 10)))
      (param_or_default params ''max_tokens'' (PyInt 1000)) (env s) = (Inr (?row # []), ?x)"
    using assms(5,6) by (simp add: demo_generate_ok)
  have dec: "tokenizer_decode demo_lib tk ?row True ?x = (Inr (map char_of ?row), ?x)"
    using assms(7) by (rule demo_decode [OF demo_tokens_small])
  have enc2: "tokenizer_encode demo_lib tk ?P ?x = (Inr (map of_char ?P # []), ?x)"
    using assms(3) by (rule demo_encode)
  have "tokenizer_decode demo_lib tk (map of_char md @ [rng (env s)]) True ?x
      = (Inr (map char_of (map of_char md @ [rng (env s)])), ?x)"
    using assms(7) by (rule demo_decode [OF demo_tokens_small])
  then have dec2: "tokenizer_decode demo_lib tk (drop (length (map of_char ?P :: nat list)) ?row) True ?x
      = (Inr (md @ [char_of (rng (env s))]), ?x)"
    by (simp add: comp_def)
  from predict_run [OF assms(1,2,4) enc gen dec enc2 dec2] assms(5) show ?thesis
    by simp
qed

lemma demo_load_no_weights:
  "load_context demo_lib demo_ctx
     (fresh \<lparr> files = [(''mpt-7b'', [(''tokenizer.json'', ''vocab''), (''config.json'', ''mpt'')])],
              rng = 33 \<rparr>) =
     (Inl (LibraryError ''pytorch_model.bin''),
      \<lparr> self = \<lparr> tokenizer = Some ''vocab'', model = None \<rparr>,
        env = \<lparr> files = [(''mpt-7b'', [(''tokenizer.json'', ''vocab''), (''config.json'', ''mpt'')])],
                rng = 33 \<rparr>,
        trace = [TokenizerFromPretrained ''mpt-7b'' ''left'', ConfigFromPretrained ''mpt-7b'' True,
                 ModelFromPretrained ''mpt-7b'' BFloat16 True] \<rparr>)"
  by (simp add: load_context_def act_defs demo_lib_def demo_ctx_def demo_read_def fresh_def)

lemma demo_lib_keeps_bundle: "library_keeps_bundle demo_lib path"
  by (simp add: library_keeps_bundle_def demo_lib_def demo_generate_def bundle_at_def
      split: pyval.splits)

lemma demo_lib_changes_only_rng: "inference_changes_only_rng demo_lib"
proof -
  have keep: "\<exists>r. x = x\<lparr>rng := r\<rparr>" for x :: ext
    by (rule exI [of _ "rng x"]) simp
  show ?thesis
    by (auto simp: inference_changes_only_rng_def demo_lib_def demo_generate_def keep
        split: pyval.splits)
qed

section \<open>The input record\<close>

text \<open>
  C8, as the code has it. predict reads the prompt column by index label, not by position.
  Two inputs whose prompt columns have the same entries in their rows labelled 0 give the
  same run, whatever else their rows and columns hold. When exactly one row is labelled 0
  (under the default index, the first row), its prompt entry is consumed: with a tokenizer
  set, the first call predict makes encodes the prompt built from that entry. When no row is
  labelled 0, predict raises KeyError and the run state is unchanged.
\<close>

theorem predict_reads_prompt_of_row_labelled_0:
  "(prompt_rows model_input = prompt_rows model_input' \<longrightarrow>
      predict lib model_input params = predict lib model_input' params) \<and>
   (prompt_rows model_input = Some [p] \<and> tokenizer (self s) = Some tk \<longrightarrow>
      (\<exists>cs. trace (snd (predict lib model_input params s))
              = trace s @ Encode (build_prompt p) # cs)) \<and>
   (prompt_rows model_input = Some [] \<longrightarrow>
      predict lib model_input params s = (Inl (KeyError ''0''), s))"
  using predict_depends_on_prompt_rows [of model_input model_input' lib params]
    predict_first_call [of model_input p s tk lib params]
    predict_no_row_labelled_0 [of model_input lib params s]
  by blast

theorem predict_reads_prompt_of_row_labelled_0_witness:
  "predict demo_lib
       \<lparr> index = [0, 1], columns = [(''id'', [''7'', ''8'']),
            (''prompt'', [''What is machine learning?'', ''And AI?''])] \<rparr> None
     = predict demo_lib demo_input None \<and>
   (\<exists>cs. trace (snd (predict demo_lib demo_input None (demo_loaded ''Learning from data.'' 33)))
           = trace (demo_loaded ''Learning from data.'' 33) @
               Encode (build_prompt ''What is machine learning?'') # cs) \<and>
   predict demo_lib \<lparr> index = [], columns = [(''prompt'', [])] \<rparr> None
       (demo_loaded ''Learning from data.'' 33)
     = (Inl (KeyError ''0''), demo_loaded ''Learning from data.'' 33)"
proof -
  let ?two = "\<lparr> index = [0, 1], columns = [(''id'', [''7'', ''8'']),
            (''prompt'', [''What is machine learning?'', ''And AI?''])] \<rparr>"
  let ?none = "\<lparr> index = [], columns = [(''prompt'', [])] \<rparr>"
  let ?S = "demo_loaded ''Learning from data.'' 33"
  have same: "prompt_rows ?two = prompt_rows demo_input"
    by (simp add: demo_input_def prompt_rows_def rows_labelled_def)
  have prompt: "prompt_rows demo_input = Some [''What is machine learning?'']"
    by (simp add: demo_input_def prompt_rows_def rows_labelled_def)
  have tk: "tokenizer (self ?S) = Some ''vocab''"
    by (simp add: demo_loaded_eq)
  have empty: "prompt_rows ?none = Some []"
    by (simp add: prompt_rows_def rows_labelled_def)
  from predict_reads_prompt_of_row_labelled_0
         [of ?two demo_input demo_lib None "''What is machine learning?''" ?S "''vocab''"]
       predict_reads_prompt_of_row_labelled_0
         [of demo_input demo_input demo_lib None "''What is machine learning?''" ?S "''vocab''"]
       predict_reads_prompt_of_row_labelled_0
         [of ?none ?none demo_lib None "''What is machine learning?''" ?S "''vocab''"]
       same prompt tk empty
  show ?thesis
    by blast
qed

text \<open>
  C8, as stated, fails: it is the row labelled 0 that is read, not the first one. On a frame
  whose rows are labelled 5 and 6 predict raises KeyError although the prompt column has a
  first entry; on a frame whose rows are labelled 1 and 0 the prompt that is encoded is the
  one of the second row.
\<close>

theorem predict_first_entry_counterexample:
  "predict demo_lib \<lparr> index = [5, 6], columns = [(''prompt'', [''first'', ''second''])] \<rparr> None
       (demo_loaded ''Learning from data.'' 33)
     = (Inl (KeyError ''0''), demo_loaded ''Learning from data.'' 33) \<and>
   trace (snd (predict demo_lib
       \<lparr> index = [1, 0], columns = [(''prompt'', [''first'', ''second''])] \<rparr> None
       (demo_loaded ''Learning from data.'' 33)))
     = trace (demo_loaded ''Learning from data.'' 33) @
         [Encode (build_prompt ''second''),
          Generate [map of_char (build_prompt ''second'')] True (PyFloat (1 / 10)) (PyInt 1000),
          Decode (map of_char (build_prompt ''second'' @ ''Learning from data.'') @ [33]) True,
          Encode (build_prompt ''second''),
          Decode (map of_char ''Learning from data.'' @ [33]) True]"
proof
  have "prompt_rows \<lparr> index = [5, 6], columns = [(''prompt'', [''first'', ''second''])] \<rparr> = Some []"
    by (simp add: prompt_rows_def rows_labelled_def)
  then show "predict demo_lib
       \<lparr> index = [5, 6], columns = [(''prompt'', [''first'', ''second''])] \<rparr> None
       (demo_loaded ''Learning from data.'' 33)
     = (Inl (KeyError ''0''), demo_loaded ''Learning from data.'' 33)"
    by (rule predict_no_row_labelled_0)
next
  let ?S = "demo_loaded ''Learning from data.'' 33"
  have prompt: "prompt_rows \<lparr> index = [1, 0], columns = [(''prompt'', [''first'', ''second''])] \<rparr>
      = Some [''second'']"
    by (simp add: prompt_rows_def rows_labelled_def)
  have tk: "tokenizer (self ?S) = Some ''vocab''" and md: "model (self ?S) = Some ''Learning from data.''"
    and rng: "rng (env ?S) = 33"
    by (simp_all add: demo_loaded_eq demo_ext_def)
  have t: "param_or_default None ''temperature'' (PyFloat (1 / 10)) = PyFloat (1 / 10)"
    and m: "param_or_default None ''max_tokens'' (PyInt 1000) = PyInt 1000"
    by (simp_all add: param_or_default_def)
  show "trace (snd (predict demo_lib
       \<lparr> index = [1, 0], columns = [(''prompt'', [''first'', ''second''])] \<rparr> None ?S))
     = trace ?S @
         [Encode (build_prompt ''second''),
          Generate [map of_char (build_prompt ''second'')] True (PyFloat (1 / 10)) (PyInt 1000),
          Decode (map of_char (build_prompt ''second'' @ ''Learning from data.'') @ [33]) True,
          Encode (build_prompt ''second''),
          Decode (map of_char ''Learning from data.'' @ [33]) True]"
    by (subst demo_predict [OF prompt tk _ md t]) (simp_all add: rng m del: of_char_Char)
qed

text \<open>
  C10. An input without a prompt column, or with an empty one, makes predict raise, and it
  does so at its first statement: the run state is the one it started in, so the log of
  library calls has grown by nothing (no tokenization, no generation), and there is no
  result.
\<close>

theorem predict_without_prompt_raises:
  "(map_of (columns model_input) ''prompt'' = None \<longrightarrow>
      predict lib model_input params s = (Inl (KeyError ''prompt''), s)) \<and>
   (map_of (columns model_input) ''prompt'' = Some [] \<longrightarrow>
      predict lib model_input params s = (Inl (KeyError ''0''), s))"
  by (simp add: predict_no_prompt_column predict_empty_prompt_column)

theorem predict_without_prompt_raises_witness:
  "predict demo_lib \<lparr> index = [0], columns = [(''text'', [''hello''])] \<rparr> None
       (demo_loaded ''Learning from data.'' 33)
     = (Inl (KeyError ''prompt''), demo_loaded ''Learning from data.'' 33) \<and>
   predict demo_lib \<lparr> index = [], columns = [(''prompt'', [])] \<rparr> None
       (demo_loaded ''Learning from data.'' 33)
     = (Inl (KeyError ''0''), demo_loaded ''Learning from data.'' 33)"
  using predict_without_prompt_raises
          [of "\<lparr> index = [0], columns = [(''text'', [''hello''])] \<rparr>" demo_lib None
            "demo_loaded ''Learning from data.'' 33"]
        predict_without_prompt_raises
          [of "\<lparr> index = [], columns = [(''prompt'', [])] \<rparr>" demo_lib None
            "demo_loaded ''Learning from data.'' 33"]
  by simp

section \<open>Generation parameters\<close>

text \<open>
  C9. predict with an empty parameter dictionary is predict with no parameters: the two are
  the same function of the run state. And both resolve temperature to 0.1 and max_tokens to
  1000: on an input whose prompt is p, with both attributes set and the prompt encoded, the
  generation call either of them makes carries temperature 0.1 and max_tokens 1000.
\<close>

theorem predict_empty_params_is_no_params:
  "predict lib model_input (Some []) = predict lib model_input None \<and>
   (prompt_rows model_input = Some [p] \<and> tokenizer (self s) = Some tk \<and>
    model (self s) = Some md \<and>
    tokenizer_encode lib tk (build_prompt p) (env s) = (Inr encoded, x1) \<longrightarrow>
      (\<exists>cs. trace (snd (predict lib model_input (Some []) s))
              = trace s @ Encode (build_prompt p) #
                  Generate encoded True (PyFloat (1 / 10)) (PyInt 1000) # cs) \<and>
      (\<exists>cs. trace (snd (predict lib model_input None s))
              = trace s @ Encode (build_prompt p) #
                  Generate encoded True (PyFloat (1 / 10)) (PyInt 1000) # cs))"
proof (intro conjI impI)
  show same: "predict lib model_input (Some []) = predict lib model_input None"
    by (simp add: predict_def param_or_default_def)
  assume run: "prompt_rows model_input = Some [p] \<and> tokenizer (self s) = Some tk \<and>
    model (self s) = Some md \<and>
    tokenizer_encode lib tk (build_prompt p) (env s) = (Inr encoded, x1)"
  then have "\<exists>cs. trace (snd (predict lib model_input None s))
      = trace s @ Encode (build_prompt p) #
          Generate encoded True (param_or_default None ''temperature'' (PyFloat (1 / 10)))
            (param_or_default None ''max_tokens'' (PyInt 1000)) # cs"
    by (intro predict_reaches_generate [where tk = tk and md = md and ?x1.0 = x1]) simp_all
  then show none: "\<exists>cs. trace (snd (predict lib model_input None s))
      = trace s @ Encode (build_prompt p) #
          Generate encoded True (PyFloat (1 / 10)) (PyInt 1000) # cs"
    by (simp add: param_or_default_def)
  then show "\<exists>cs. trace (snd (predict lib model_input (Some []) s))
      = trace s @ Encode (build_prompt p) #
          Generate encoded True (PyFloat (1 / 10)) (PyInt 1000) # cs"
    by (simp add: same)
qed

theorem predict_empty_params_is_no_params_witness:
  "predict demo_lib demo_input (Some []) = predict demo_lib demo_input None \<and>
   (\<exists>cs. trace (snd (predict demo_lib demo_input (Some []) (demo_loaded ''Learning from data.'' 33)))
           = trace (demo_loaded ''Learning from data.'' 33) @
               Encode (build_prompt ''What is machine learning?'') #
               Generate [map of_char (build_prompt ''What is machine learning?'')] True
                 (PyFloat (1 / 10)) (PyInt 1000) # cs) \<and>
   (\<exists>cs. trace (snd (predict demo_lib demo_input None (demo_loaded ''Learning from data.'' 33)))
           = trace (demo_loaded ''Learning from data.'' 33) @
               Encode (build_prompt ''What is machine learning?'') #
               Generate [map of_char (build_prompt ''What is machine learning?'')] True
                 (PyFloat (1 / 10)) (PyInt 1000) # cs)"
proof -
  let ?S = "demo_loaded ''Learning from data.'' 33"
  let ?P = "build_prompt ''What is machine learning?''"
  have prompt: "prompt_rows demo_input = Some [''What is machine learning?'']"
    by (simp add: demo_input_def prompt_rows_def rows_labelled_def)
  have tk: "tokenizer (self ?S) = Some ''vocab''"
    and md: "model (self ?S) = Some ''Learning from data.''"
    by (simp_all add: demo_loaded_eq)
  have enc: "tokenizer_encode demo_lib ''vocab'' ?P (env ?S) = (Inr [map of_char ?P], env ?S)"
    by (simp add: demo_encode)
  from predict_empty_params_is_no_params [of demo_lib demo_input "''What is machine learning?''"
         ?S "''vocab''" "''Learning from data.''" "[map of_char ?P]" "env ?S"]
       prompt tk md enc
  show ?thesis
    by blast
qed

text \<open>
  C2. Whenever predict reaches the generation call, a parameter the caller did not supply
  (no parameters at all, or a dictionary without that key) goes into the call with its
  fallback value: temperature 0.1, max_tokens 1000.
\<close>

theorem predict_defaults_reach_generate:
  assumes "trace (snd (predict lib model_input params s)) = trace s @ cs"
    and "Generate input do_sample t m \<in> set cs"
  shows "(key_absent params ''temperature'' \<longrightarrow> t = PyFloat (1 / 10)) \<and>
         (key_absent params ''max_tokens'' \<longrightarrow> m = PyInt 1000)"
  using predict_generate_call [OF assms] by (simp add: param_or_default_absent)

theorem predict_defaults_reach_generate_witness:
  "key_absent (Some [(''temperature'', PyFloat (6 / 10))]) ''max_tokens'' \<and>
   (\<exists>input do_sample t.
      Generate input do_sample t (PyInt 1000) \<in>
        set (trace (snd (predict demo_lib demo_input (Some [(''temperature'', PyFloat (6 / 10))])
               (fresh (demo_ext ''Learning from data.'' 33)
                  \<lparr>self := \<lparr> tokenizer = Some ''vocab'', model = Some ''Learning from data.'' \<rparr>\<rparr>))))) \<and>
   key_absent None ''temperature'' \<and> key_absent None ''max_tokens'' \<and>
   (\<exists>input do_sample.
      Generate input do_sample (PyFloat (1 / 10)) (PyInt 1000) \<in>
        set (trace (snd (predict demo_lib demo_input None
               (fresh (demo_ext ''Learning from data.'' 33)
                  \<lparr>self := \<lparr> tokenizer = Some ''vocab'', model = Some ''Learning from data.'' \<rparr>\<rparr>)))))"
proof -
  let ?W = "''Learning from data.''"
  let ?P = "build_prompt ''What is machine learning?''"
  let ?S = "fresh (demo_ext ?W 33)\<lparr>self := \<lparr> tokenizer = Some ''vocab'', model = Some ?W \<rparr>\<rparr>
             :: (string, string) state"
  let ?ps = "Some [(''temperature'', PyFloat (6 / 10))]"
  have prompt: "prompt_rows demo_input = Some [''What is machine learning?'']"
    by (simp add: demo_input_def prompt_rows_def rows_labelled_def)
  have tk: "tokenizer (self ?S) = Some ''vocab''" and md: "model (self ?S) = Some ?W"
    and rng: "rng (env ?S) < 256" and tr: "trace ?S = []"
    by (simp_all add: fresh_def demo_ext_def)
  have abs1: "key_absent ?ps ''max_tokens''" and abs2: "key_absent None ''temperature''"
    and abs3: "key_absent None ''max_tokens''"
    by (simp_all add: key_absent_def)
  have t1: "param_or_default ?ps ''temperature'' (PyFloat (1 / 10)) = PyFloat (6 / 10)"
    by (simp add: param_or_default_def)
  have t2: "param_or_default None ''temperature'' (PyFloat (1 / 10)) = PyFloat (1 / 10)"
    by (simp add: param_or_default_def)
  let ?m1 = "param_or_default ?ps ''max_tokens'' (PyInt 1000)"
  let ?t2 = "param_or_default None ''temperature'' (PyFloat (1 / 10))"
  let ?m2 = "param_or_default None ''max_tokens'' (PyInt 1000)"
  let ?cs1 = "[Encode ?P, Generate [map of_char ?P] True (PyFloat (6 / 10)) ?m1,
      Decode (map of_char (?P @ ?W) @ [rng (env ?S)]) True, Encode ?P,
      Decode (map of_char ?W @ [rng (env ?S)]) True]"
  let ?cs2 = "[Encode ?P, Generate [map of_char ?P] True ?t2 ?m2,
      Decode (map of_char (?P @ ?W) @ [rng (env ?S)]) True, Encode ?P,
      Decode (map of_char ?W @ [rng (env ?S)]) True]"
  have run1: "trace (snd (predict demo_lib demo_input ?ps ?S)) = trace ?S @ ?cs1"
    by (subst demo_predict [OF prompt tk _ md t1 _ rng]) simp_all
  have run2: "trace (snd (predict demo_lib demo_input None ?S)) = trace ?S @ ?cs2"
    by (subst demo_predict [OF prompt tk _ md t2 _ rng]) (simp_all add: t2)
  have in1: "Generate [map of_char ?P] True (PyFloat (6 / 10)) ?m1 \<in> set ?cs1"
    and in2: "Generate [map of_char ?P] True ?t2 ?m2 \<in> set ?cs2"
    by simp_all
  from predict_defaults_reach_generate [OF run1 in1] abs1 have "?m1 = PyInt 1000"
    by blast
  with in1 run1 tr have g1: "\<exists>input do_sample t. Generate input do_sample t (PyInt 1000)
      \<in> set (trace (snd (predict demo_lib demo_input ?ps ?S)))"
    by (metis append_Nil)
  from predict_defaults_reach_generate [OF run2 in2] abs2 abs3
  have "?t2 = PyFloat (1 / 10)" and "?m2 = PyInt 1000"
    by blast+
  with in2 run2 tr have g2: "\<exists>input do_sample. Generate input do_sample (PyFloat (1 / 10)) (PyInt 1000)
      \<in> set (trace (snd (predict demo_lib demo_input None ?S)))"
    by (metis append_Nil)
  from abs1 g1 abs2 abs3 g2 show ?thesis
    by blast
qed

section \<open>The steps of predict\<close>

text \<open>
  C4, as the code has it. On an input whose prompt is p, with both attributes set and every
  call into the library returning, predict runs these steps in this order: it builds the
  prompt from the fixed template around the instruction, encodes it, calls generate once
  with do_sample on and the resolved temperature and max_tokens, decodes the whole first
  output row (a text it never uses), encodes the prompt again to count its tokens, decodes
  the output row without that many leading tokens, and returns that text as the one
  candidate. The candidate is cut off by position: it is the continuation when the output
  row starts with the prompt's tokens.
\<close>

theorem predict_steps_in_order:
  assumes "prompt_rows model_input = Some [p]"
    and "tokenizer (self s) = Some tk"
    and "model (self s) = Some md"
    and "tokenizer_encode lib tk (build_prompt p) (env s) = (Inr encoded, x1)"
    and "model_generate lib md encoded True
           (param_or_default params ''temperature'' (PyFloat (1 / 10)))
           (param_or_default params ''max_tokens'' (PyInt 1000)) x1 = (Inr (row # rows), x2)"
    and "tokenizer_decode lib tk row True x2 = (Inr full_text, x3)"
    and "tokenizer_encode lib tk (build_prompt p) x3 = (Inr (prow # prows), x4)"
    and "tokenizer_decode lib tk (drop (length prow) row) True x4 = (Inr response, x5)"
  shows "predict lib model_input params s =
     (Inr [(''candidates'', [response])],
      s\<lparr>env := x5,
        trace := trace s @
          [Encode (build_prompt p),
           Generate encoded True (param_or_default params ''temperature'' (PyFloat (1 / 10)))
             (param_or_default params ''max_tokens'' (PyInt 1000)),
           Decode row True,
           Encode (build_prompt p),
           Decode (drop (length prow) row) True]\<rparr>) \<and>
     build_prompt p =
       ''Below is an instruction that describes a task. Write a response that appropriately completes the request.'' @
       [CHR 0x0A] @ ''        ### Instruction:'' @
       [CHR 0x0A] @ ''        '' @ p @
       [CHR 0x0A] @ ''        ### Response:'' @
       [CHR 0x0A] @ ''        ''"
proof
  show "predict lib model_input params s =
     (Inr [(''candidates'', [response])],
      s\<lparr>env := x5,
        trace := trace s @
          [Encode (build_prompt p),
           Generate encoded True (param_or_default params ''temperature'' (PyFloat (1 / 10)))
             (param_or_default params ''max_tokens'' (PyInt 1000)),
           Decode row True,
           Encode (build_prompt p),
           Decode (drop (length prow) row) True]\<rparr>)"
    using assms by (rule predict_run)
  show "build_prompt p =
       ''Below is an instruction that describes a task. Write a response that appropriately completes the request.'' @
       [CHR 0x0A] @ ''        ### Instruction:'' @
       [CHR 0x0A] @ ''        '' @ p @
       [CHR 0x0A] @ ''        ### Response:'' @
       [CHR 0x0A] @ ''        ''"
    by (simp add: build_prompt_def INTRO_BLURB_def INSTRUCTION_KEY_def RESPONSE_KEY_def
        line_break_def)
qed

theorem predict_steps_in_order_witness:
  "predict demo_lib demo_input (Some [(''temperature'', PyFloat (6 / 10))])
       (demo_loaded ''Learning from data.'' 33) =
     (Inr [(''candidates'', [''Learning from data.!''])],
      (demo_loaded ''Learning from data.'' 33)
        \<lparr>env := demo_ext ''Learning from data.'' 34,
         trace := trace (demo_loaded ''Learning from data.'' 33) @
          [Encode (build_prompt ''What is machine learning?''),
           Generate [map of_char (build_prompt ''What is machine learning?'')] True
             (PyFloat (6 / 10)) (PyInt 1000),
           Decode (map of_char (build_prompt ''What is machine learning?'' @ ''Learning from data.'')
                     @ [33]) True,
           Encode (build_prompt ''What is machine learning?''),
           Decode (map of_char ''Learning from data.'' @ [33]) True]\<rparr>)"
proof -
  let ?W = "''Learning from data.''"
  let ?S = "demo_loaded ?W 33"
  let ?P = "build_prompt ''What is machine learning?''"
  let ?ps = "Some [(''temperature'', PyFloat (6 / 10))]"
  let ?x = "demo_ext ?W 34"
  let ?row = "map of_char (?P @ ?W) @ [33 :: nat]"
  have prompt: "prompt_rows demo_input = Some [''What is machine learning?'']"
    by (simp add: demo_input_def prompt_rows_def rows_labelled_def)
  have tk: "tokenizer (self ?S) = Some ''vocab''" and md: "model (self ?S) = Some ?W"
    and env: "env ?S = demo_ext ?W 33"
    by (simp_all add: demo_loaded_eq)
  have t: "param_or_default ?ps ''temperature'' (PyFloat (1 / 10)) = PyFloat (6 / 10)"
    and m: "param_or_default ?ps ''max_tokens'' (PyInt 1000) = PyInt 1000"
    by (simp_all add: param_or_default_def)
  have enc: "tokenizer_encode demo_lib ''vocab'' ?P (env ?S) = (Inr [map of_char ?P], demo_ext ?W 33)"
    by (simp add: demo_encode env)
  have gen: "model_generate demo_lib ?W [map of_char ?P] True
      (param_or_default ?ps ''temperature'' (PyFloat (1 / 10)))
      (param_or_default ?ps ''max_tokens'' (PyInt 1000)) (demo_ext ?W 33) = (Inr (?row # []), ?x)"
    unfolding t m by (simp add: demo_generate_ok demo_ext_def)
  have dec: "tokenizer_decode demo_lib ''vocab'' ?row True ?x = (Inr (map char_of ?row), ?x)"
    by (rule demo_decode [OF demo_tokens_small]) simp
  have enc2: "tokenizer_encode demo_lib ''vocab'' ?P ?x = (Inr (map of_char ?P # []), ?x)"
    by (simp add: demo_encode)
  have "tokenizer_decode demo_lib ''vocab'' (map of_char ?W @ [33]) True ?x
      = (Inr (map char_of (map of_char ?W @ [33 :: nat])), ?x)"
    by (rule demo_decode [OF demo_tokens_small]) simp
  then have dec2: "tokenizer_decode demo_lib ''vocab''
        (drop (length (map of_char ?P :: nat list)) ?row) True ?x
      = (Inr ''Learning from data.!'', ?x)"
    by (simp add: char_of_33 del: of_char_Char)
  from predict_steps_in_order [OF prompt tk md enc gen dec enc2 dec2] show ?thesis
    unfolding t m by simp
qed

text \<open>
  C4, as stated, fails: the steps it lists are not all the steps. Between generating and
  stripping, predict decodes the whole output row, and an error there ends the call. On a
  tokenizer that cannot decode a line break the prompt is encoded, the model generates, and
  the continuation by itself decodes to "Learning from data.!"; yet predict raises at its
  third call, the decoding of the whole row, which contains the prompt's line breaks.
\<close>

theorem predict_whole_row_decode_counterexample:
  "predict strict_lib demo_input None (demo_loaded ''Learning from data.'' 33) =
     (Inl (LibraryError ''line break''),
      (demo_loaded ''Learning from data.'' 33)
        \<lparr>env := demo_ext ''Learning from data.'' 34,
         trace := trace (demo_loaded ''Learning from data.'' 33) @
          [Encode (build_prompt ''What is machine learning?''),
           Generate [map of_char (build_prompt ''What is machine learning?'')] True
             (PyFloat (1 / 10)) (PyInt 1000),
           Decode (map of_char (build_prompt ''What is machine learning?'' @ ''Learning from data.'')
                     @ [33]) True]\<rparr>) \<and>
   tokenizer_decode strict_lib ''vocab'' (map of_char ''Learning from data.'' @ [33]) True
       (demo_ext ''Learning from data.'' 34)
     = (Inr ''Learning from data.!'', demo_ext ''Learning from data.'' 34)"
proof
  let ?W = "''Learning from data.''"
  let ?S = "demo_loaded ?W 33"
  let ?P = "build_prompt ''What is machine learning?''"
  let ?x = "demo_ext ?W 34"
  let ?row = "map of_char (?P @ ?W) @ [33 :: nat]"
  have prompt: "prompt_rows demo_input = Some [''What is machine learning?'']"
    by (simp add: demo_input_def prompt_rows_def rows_labelled_def)
  have tk: "tokenizer (self ?S) = Some ''vocab''" and md: "model (self ?S) = Some ?W"
    and env: "env ?S = demo_ext ?W 33"
    by (simp_all add: demo_loaded_eq)
  have t: "param_or_default None ''temperature'' (PyFloat (1 / 10)) = PyFloat (1 / 10)"
    and m: "param_or_default None ''max_tokens'' (PyInt 1000) = PyInt 1000"
    by (simp_all add: param_or_default_def)
  have enc: "tokenizer_encode strict_lib ''vocab'' ?P (env ?S) = (Inr [map of_char ?P], demo_ext ?W 33)"
    by (simp add: strict_lib_def demo_encode env)
  have gen: "model_generate strict_lib ?W [map of_char ?P] True
      (param_or_default None ''temperature'' (PyFloat (1 / 10)))
      (param_or_default None ''max_tokens'' (PyInt 1000)) (demo_ext ?W 33) = (Inr (?row # []), ?x)"
    unfolding t m by (simp add: strict_lib_def demo_generate_ok demo_ext_def)
  have "CHR 0x0A \<in> set ?P"
    by (simp add: build_prompt_def line_break_def)
  then have "of_char (CHR 0x0A) \<in> (of_char ` set ?P :: nat set)"
    by (rule imageI)
  then have "(10 :: nat) \<in> set ?row"
    by simp
  then have dec: "tokenizer_decode strict_lib ''vocab'' ?row True ?x
      = (Inl (LibraryError ''line break''), ?x)"
    by (simp add: strict_lib_def)
  from predict_decode_error [OF prompt tk md enc gen dec]
  show "predict strict_lib demo_input None ?S =
     (Inl (LibraryError ''line break''),
      ?S\<lparr>env := ?x,
         trace := trace ?S @
          [Encode ?P, Generate [map of_char ?P] True (PyFloat (1 / 10)) (PyInt 1000),
           Decode (map of_char (?P @ ?W) @ [33]) True]\<rparr>)"
    unfolding t m by simp
next
  have "(10 :: nat) \<notin> set (map of_char ''Learning from data.'' @ [33])"
    by simp
  moreover have "tokenizer_decode demo_lib ''vocab'' (map of_char ''Learning from data.'' @ [33]) True
      (demo_ext ''Learning from data.'' 34)
    = (Inr (map char_of (map of_char ''Learning from data.'' @ [33 :: nat])),
       demo_ext ''Learning from data.'' 34)"
    by (rule demo_decode [OF demo_tokens_small]) simp
  ultimately show "tokenizer_decode strict_lib ''vocab''
      (map of_char ''Learning from data.'' @ [33]) True (demo_ext ''Learning from data.'' 34)
    = (Inr ''Learning from data.!'', demo_ext ''Learning from data.'' 34)"
    by (simp add: strict_lib_def char_of_33 del: of_char_Char)
qed

section \<open>Errors inside predict\<close>

text \<open>
  C5. An error raised by the library during predict (by either encoding of the prompt, by
  generation, or by either decoding) is the error predict raises: the failing call is the
  last one in the log, no call is repeated, and there is no result.
\<close>

theorem predict_library_errors_propagate:
  assumes "prompt_rows model_input = Some [p]"
    and "tokenizer (self s) = Some tk"
    and "model (self s) = Some md"
    and "temperature = param_or_default params ''temperature'' (PyFloat (1 / 10))"
    and "max_tokens = param_or_default params ''max_tokens'' (PyInt 1000)"
  shows
   "(tokenizer_encode lib tk (build_prompt p) (env s) = (Inl e, x1) \<longrightarrow>
       predict lib model_input params s =
         (Inl e, s\<lparr>env := x1, trace := trace s @ [Encode (build_prompt p)]\<rparr>)) \<and>
    (tokenizer_encode lib tk (build_prompt p) (env s) = (Inr encoded, x1) \<and>
     model_generate lib md encoded True temperature max_tokens x1 = (Inl e, x2) \<longrightarrow>
       predict lib model_input params s =
         (Inl e, s\<lparr>env := x2, trace := trace s @
            [Encode (build_prompt p), Generate encoded True temperature max_tokens]\<rparr>)) \<and>
    (tokenizer_encode lib tk (build_prompt p) (env s) = (Inr encoded, x1) \<and>
     model_generate lib md encoded True temperature max_tokens x1 = (Inr (row # rows), x2) \<and>
     tokenizer_decode lib tk row True x2 = (Inl e, x3) \<longrightarrow>
       predict lib model_input params s =
         (Inl e, s\<lparr>env := x3, trace := trace s @
            [Encode (build_prompt p), Generate encoded True temperature max_tokens,
             Decode row True]\<rparr>)) \<and>
    (tokenizer_encode lib tk (build_prompt p) (env s) = (Inr encoded, x1) \<and>
     model_generate lib md encoded True temperature max_tokens x1 = (Inr (row # rows), x2) \<and>
     tokenizer_decode lib tk row True x2 = (Inr full_text, x3) \<and>
     tokenizer_encode lib tk (build_prompt p) x3 = (Inl e, x4) \<longrightarrow>
       predict lib model_input params s =
         (Inl e, s\<lparr>env := x4, trace := trace s @
            [Encode (build_prompt p), Generate encoded True temperature max_tokens,
             Decode row True, Encode (build_prompt p)]\<rparr>)) \<and>
    (tokenizer_encode lib tk (build_prompt p) (env s) = (Inr encoded, x1) \<and>
     model_generate lib md encoded True temperature max_tokens x1 = (Inr (row # rows), x2) \<and>
     tokenizer_decode lib tk row True x2 = (Inr full_text, x3) \<and>
     tokenizer_encode lib tk (build_prompt p) x3 = (Inr (prow # prows), x4) \<and>
     tokenizer_decode lib tk (drop (length prow) row) True x4 = (Inl e, x5) \<longrightarrow>
       predict lib model_input params s =
         (Inl e, s\<lparr>env := x5, trace := trace s @
            [Encode (build_prompt p), Generate encoded True temperature max_tokens,
             Decode row True, Encode (build_prompt p),
             Decode (drop (length prow) row) True]\<rparr>))"
  unfolding assms(4,5)
proof (intro conjI impI, goal_cases)
  case 1
  then show ?case
    by (rule predict_encode_error [OF assms(1,2)])
next
  case 2
  then show ?case
    by (elim conjE) (erule (1) predict_generate_error [OF assms(1,2,3)])
next
  case 3
  then show ?case
    by (elim conjE) (erule (2) predict_decode_error [OF assms(1,2,3)])
next
  case 4
  then show ?case
    by (elim conjE) (erule (3) predict_reencode_error [OF assms(1,2,3)])
next
  case 5
  then show ?case
    by (elim conjE) (erule (4) predict_final_decode_error [OF assms(1,2,3)])
qed

theorem predict_library_errors_propagate_witness:
  "predict demo_lib demo_input None
      \<lparr> self = \<lparr> tokenizer = Some [], model = Some ''Learning from data.'' \<rparr>,
        env = demo_ext ''Learning from data.'' 33, trace = [] \<rparr>
     = (Inl (LibraryError ''encode''),
        \<lparr> self = \<lparr> tokenizer = Some [], model = Some ''Learning from data.'' \<rparr>,
          env = demo_ext ''Learning from data.'' 33,
          trace = [Encode (build_prompt ''What is machine learning?'')] \<rparr>) \<and>
   predict demo_lib demo_input (Some [(''temperature'', PyFloat 0)])
      (demo_loaded ''Learning from data.'' 33)
     = (Inl (LibraryError ''temperature''),
        (demo_loaded ''Learning from data.'' 33)
          \<lparr>env := demo_ext ''Learning from data.'' 33,
           trace := trace (demo_loaded ''Learning from data.'' 33) @
             [Encode (build_prompt ''What is machine learning?''),
              Generate [map of_char (build_prompt ''What is machine learning?'')] True
                (PyFloat 0) (PyInt 1000)]\<rparr>) \<and>
   predict demo_lib demo_input None (demo_loaded ''Learning from data.'' 300)
     = (Inl (LibraryError ''decode''),
        (demo_loaded ''Learning from data.'' 300)
          \<lparr>env := demo_ext ''Learning from data.'' 301,
           trace := trace (demo_loaded ''Learning from data.'' 300) @
             [Encode (build_prompt ''What is machine learning?''),
              Generate [map of_char (build_prompt ''What is machine learning?'')] True
                (PyFloat (1 / 10)) (PyInt 1000),
              Decode (map of_char (build_prompt ''What is machine learning?'' @
                        ''Learning from data.'') @ [300]) True]\<rparr>)"
proof (intro conjI)
  let ?W = "''Learning from data.''"
  let ?P = "build_prompt ''What is machine learning?''"
  have prompt: "prompt_rows demo_input = Some [''What is machine learning?'']"
    by (simp add: demo_input_def prompt_rows_def rows_labelled_def)
  have none: "param_or_default None ''temperature'' (PyFloat (1 / 10)) = PyFloat (1 / 10)"
    "param_or_default None ''max_tokens'' (PyInt 1000) = PyInt 1000"
    by (simp_all add: param_or_default_def)
  have zero: "param_or_default (Some [(''temperature'', PyFloat 0)]) ''temperature''
        (PyFloat (1 / 10)) = PyFloat 0"
    "param_or_default (Some [(''temperature'', PyFloat 0)]) ''max_tokens'' (PyInt 1000)
        = PyInt 1000"
    by (simp_all add: param_or_default_def)
  let ?E = "\<lparr> self = \<lparr> tokenizer = Some [], model = Some ?W \<rparr>,
             env = demo_ext ?W 33, trace = [] \<rparr> :: (string, string) state"
  have "tokenizer_encode demo_lib [] ?P (env ?E) = (Inl (LibraryError ''encode''), demo_ext ?W 33)"
    by (simp add: demo_lib_def)
  with predict_library_errors_propagate [where model_input = demo_input
      and p = "''What is machine learning?''" and s = ?E and tk = "[]" and md = ?W
      and params = None and lib = demo_lib and e = "LibraryError ''encode''"
      and ?x1.0 = "demo_ext ?W 33", OF prompt _ _ refl refl]
  show "predict demo_lib demo_input None ?E =
      (Inl (LibraryError ''encode''),
       \<lparr> self = \<lparr> tokenizer = Some [], model = Some ?W \<rparr>,
         env = demo_ext ?W 33, trace = [Encode ?P] \<rparr>)"
    by simp
next
  let ?W = "''Learning from data.''"
  let ?P = "build_prompt ''What is machine learning?''"
  let ?S = "demo_loaded ?W 33"
  let ?ps = "Some [(''temperature'', PyFloat 0)]"
  have prompt: "prompt_rows demo_input = Some [''What is machine learning?'']"
    by (simp add: demo_input_def prompt_rows_def rows_labelled_def)
  have tk: "tokenizer (self ?S) = Some ''vocab''" and md: "model (self ?S) = Some ?W"
    and env: "env ?S = demo_ext ?W 33"
    by (simp_all add: demo_loaded_eq)
  have zero: "param_or_default ?ps ''temperature'' (PyFloat (1 / 10)) = PyFloat 0"
    "param_or_default ?ps ''max_tokens'' (PyInt 1000) = PyInt 1000"
    by (simp_all add: param_or_default_def)
  have enc: "tokenizer_encode demo_lib ''vocab'' ?P (env ?S) = (Inr [map of_char ?P], demo_ext ?W 33)"
    by (simp add: demo_encode env)
  have gen: "model_generate demo_lib ?W [map of_char ?P] True (PyFloat 0) (PyInt 1000)
      (demo_ext ?W 33) = (Inl (LibraryError ''temperature''), demo_ext ?W 33)"
    by (simp add: demo_lib_def demo_generate_def)
  from predict_library_errors_propagate [OF prompt tk md zero(1) [symmetric] zero(2) [symmetric],
      THEN conjunct2, THEN conjunct1, THEN mp, OF conjI, OF enc gen]
  show "predict demo_lib demo_input ?ps ?S =
      (Inl (LibraryError ''temperature''),
       ?S\<lparr>env := demo_ext ?W 33,
          trace := trace ?S @ [Encode ?P, Generate [map of_char ?P] True (PyFloat 0) (PyInt 1000)]\<rparr>)"
    by simp
next
  let ?W = "''Learning from data.''"
  let ?P = "build_prompt ''What is machine learning?''"
  let ?S = "demo_loaded ?W 300"
  let ?row = "map of_char (?P @ ?W) @ [300 :: nat]"
  have prompt: "prompt_rows demo_input = Some [''What is machine learning?'']"
    by (simp add: demo_input_def prompt_rows_def rows_labelled_def)
  have tk: "tokenizer (self ?S) = Some ''vocab''" and md: "model (self ?S) = Some ?W"
    and env: "env ?S = demo_ext ?W 300"
    by (simp_all add: demo_loaded_eq)
  have none: "param_or_default None ''temperature'' (PyFloat (1 / 10)) = PyFloat (1 / 10)"
    "param_or_default None ''max_tokens'' (PyInt 1000) = PyInt 1000"
    by (simp_all add: param_or_default_def)
  have enc: "tokenizer_encode demo_lib ''vocab'' ?P (env ?S) = (Inr [map of_char ?P], demo_ext ?W 300)"
    by (simp add: demo_encode env)
  have gen: "model_generate demo_lib ?W [map of_char ?P] True (PyFloat (1 / 10)) (PyInt 1000)
      (demo_ext ?W 300) = (Inr (?row # []), demo_ext ?W 301)"
    by (simp add: demo_generate_ok demo_ext_def)
  have dec: "tokenizer_decode demo_lib ''vocab'' ?row True (demo_ext ?W 301)
      = (Inl (LibraryError ''decode''), demo_ext ?W 301)"
    by (simp add: demo_lib_def)
  from predict_library_errors_propagate [OF prompt tk md none(1) [symmetric] none(2) [symmetric],
      THEN conjunct2, THEN conjunct2, THEN conjunct1, THEN mp, OF conjI, OF enc conjI, OF gen dec]
  show "predict demo_lib demo_input None ?S =
      (Inl (LibraryError ''decode''),
       ?S\<lparr>env := demo_ext ?W 301,
          trace := trace ?S @ [Encode ?P, Generate [map of_char ?P] True (PyFloat (1 / 10)) (PyInt 1000),
            Decode (map of_char (?P @ ?W) @ [300]) True]\<rparr>)"
    by simp
qed

section \<open>Loading, then predicting\<close>

text \<open>
  C1, as the code has it. After a load_context that returned, both attributes are set, and
  a predict on an input whose prompt is p (the prompt entry of its one row labelled 0),
  whose library calls all return, gives exactly one candidate: the decoding of the first output row without its first prompt_length tokens,
  prompt_length being the number of tokens of the re-encoded prompt. The prompt is removed
  by position, as tokens; nothing inspects the text that remains, so whether the candidate
  contains the instruction marker is up to the model.
\<close>

theorem load_then_predict_returns_stripped_decoding:
  assumes init: "load_context lib ctx s0 = (Inr u, s1)"
    and prompt: "prompt_rows model_input = Some [p]"
  shows "\<exists>tk md. tokenizer (self s1) = Some tk \<and> model (self s1) = Some md \<and>
     (\<forall>encoded x1 row rows x2 full_text x3 prow prows x4 response x5.
        tokenizer_encode lib tk (build_prompt p) (env s1) = (Inr encoded, x1) \<and>
        model_generate lib md encoded True
          (param_or_default params ''temperature'' (PyFloat (1 / 10)))
          (param_or_default params ''max_tokens'' (PyInt 1000)) x1 = (Inr (row # rows), x2) \<and>
        tokenizer_decode lib tk row True x2 = (Inr full_text, x3) \<and>
        tokenizer_encode lib tk (build_prompt p) x3 = (Inr (prow # prows), x4) \<and>
        tokenizer_decode lib tk (drop (length prow) row) True x4 = (Inr response, x5) \<longrightarrow>
        fst (predict lib model_input params s1) = Inr [(''candidates'', [response])])"
proof -
  from load_context_sets_attributes [OF init]
  obtain tk md where tk: "tokenizer (self s1) = Some tk" and md: "model (self s1) = Some md"
    by blast
  have "fst (predict lib model_input params s1) = Inr [(''candidates'', [response])]"
    if "tokenizer_encode lib tk (build_prompt p) (env s1) = (Inr encoded, x1)"
      and "model_generate lib md encoded True
          (param_or_default params ''temperature'' (PyFloat (1 / 10)))
          (param_or_default params ''max_tokens'' (PyInt 1000)) x1 = (Inr (row # rows), x2)"
      and "tokenizer_decode lib tk row True x2 = (Inr full_text, x3)"
      and "tokenizer_encode lib tk (build_prompt p) x3 = (Inr (prow # prows), x4)"
      and "tokenizer_decode lib tk (drop (length prow) row) True x4 = (Inr response, x5)"
    for encoded x1 row rows x2 full_text x3 prow prows x4 response x5
    using predict_run [OF prompt tk md that] by simp
  with tk md show ?thesis
    by blast
qed

theorem load_then_predict_returns_stripped_decoding_witness:
  "load_context demo_lib demo_ctx (fresh (demo_ext ''Learning from data.'' 33))
     = (Inr (), demo_loaded ''Learning from data.'' 33) \<and>
   fst (predict demo_lib demo_input None (demo_loaded ''Learning from data.'' 33))
     = Inr [(''candidates'', [''Learning from data.!''])]"
proof -
  let ?W = "''Learning from data.''"
  let ?S = "demo_loaded ?W 33"
  let ?P = "build_prompt ''What is machine learning?''"
  let ?x = "demo_ext ?W 34"
  let ?row = "map of_char (?P @ ?W) @ [33 :: nat]"
  have init: "load_context demo_lib demo_ctx (fresh (demo_ext ?W 33)) = (Inr (), ?S)"
    by (simp add: demo_load demo_loaded_eq)
  have prompt: "prompt_rows demo_input = Some [''What is machine learning?'']"
    by (simp add: demo_input_def prompt_rows_def rows_labelled_def)
  from load_then_predict_returns_stripped_decoding [OF init prompt, of None]
  obtain tk md where tk: "tokenizer (self ?S) = Some tk" and md: "model (self ?S) = Some md"
    and H: "\<forall>encoded x1 row rows x2 full_text x3 prow prows x4 response x5.
        tokenizer_encode demo_lib tk ?P (env ?S) = (Inr encoded, x1) \<and>
        model_generate demo_lib md encoded True
          (param_or_default None ''temperature'' (PyFloat (1 / 10)))
          (param_or_default None ''max_tokens'' (PyInt 1000)) x1 = (Inr (row # rows), x2) \<and>
        tokenizer_decode demo_lib tk row True x2 = (Inr full_text, x3) \<and>
        tokenizer_encode demo_lib tk ?P x3 = (Inr (prow # prows), x4) \<and>
        tokenizer_decode demo_lib tk (drop (length prow) row) True x4 = (Inr response, x5) \<longrightarrow>
        fst (predict demo_lib demo_input None ?S) = Inr [(''candidates'', [response])]"
    by blast
  from tk md have tkv: "tk = ''vocab''" and mdv: "md = ?W"
    by (simp_all add: demo_loaded_eq)
  have env: "env ?S = demo_ext ?W 33"
    by (simp add: demo_loaded_eq)
  have t: "param_or_default None ''temperature'' (PyFloat (1 / 10)) = PyFloat (1 / 10)"
    by (simp add: param_or_default_def)
  have enc: "tokenizer_encode demo_lib tk ?P (env ?S) = (Inr [map of_char ?P], demo_ext ?W 33)"
    by (simp add: demo_encode env tkv)
  have gen: "model_generate demo_lib md [map of_char ?P] True
      (param_or_default None ''temperature'' (PyFloat (1 / 10)))
      (param_or_default None ''max_tokens'' (PyInt 1000)) (demo_ext ?W 33) = (Inr (?row # []), ?x)"
    unfolding t mdv by (simp add: demo_generate_ok demo_ext_def)
  have dec: "tokenizer_decode demo_lib tk ?row True ?x = (Inr (map char_of ?row), ?x)"
    by (rule demo_decode [OF demo_tokens_small]) simp
  have enc2: "tokenizer_encode demo_lib tk ?P ?x = (Inr (map of_char ?P # []), ?x)"
    by (simp add: demo_encode tkv)
  have "tokenizer_decode demo_lib tk (map of_char ?W @ [33]) True ?x
      = (Inr (map char_of (map of_char ?W @ [33 :: nat])), ?x)"
    by (rule demo_decode [OF demo_tokens_small]) simp
  then have dec2: "tokenizer_decode demo_lib tk
        (drop (length (map of_char ?P :: nat list)) ?row) True ?x
      = (Inr ''Learning from data.!'', ?x)"
    by (simp add: char_of_33 del: of_char_Char)
  from H [rule_format, OF conjI, OF enc conjI, OF gen conjI, OF dec conjI, OF enc2 dec2] init
  show ?thesis
    by simp
qed

text \<open>
  C1, as stated, fails: on a bundle that loads, with a model that continues the prompt
  with the instruction marker, the candidate predict returns for the prompt
  "What is machine learning?" contains "### Instruction:".
\<close>

theorem load_then_predict_instruction_key_counterexample:
  "fst (load_context demo_lib demo_ctx (fresh (demo_ext ''### Instruction:'' 33))) = Inr () \<and>
   fst (predict demo_lib demo_input None
          (snd (load_context demo_lib demo_ctx (fresh (demo_ext ''### Instruction:'' 33)))))
     = Inr [(''candidates'', [''### Instruction:!''])] \<and>
   sublist ''### Instruction:'' ''### Instruction:!''"
proof -
  let ?S = "demo_loaded ''### Instruction:'' 33"
  have S: "snd (load_context demo_lib demo_ctx (fresh (demo_ext ''### Instruction:'' 33))) = ?S"
    by (simp add: demo_loaded_def)
  have "predict demo_lib demo_input None ?S =
     (Inr [(''candidates'', [''### Instruction:'' @ [char_of (rng (env ?S))]])],
      ?S\<lparr>env := (env ?S)\<lparr>rng := Suc (rng (env ?S))\<rparr>,
        trace := trace ?S @
          [Encode (build_prompt ''What is machine learning?''),
           Generate [map of_char (build_prompt ''What is machine learning?'')] True (PyFloat (1 / 10))
             (param_or_default None ''max_tokens'' (PyInt 1000)),
           Decode (map of_char (build_prompt ''What is machine learning?'' @ ''### Instruction:'')
                     @ [rng (env ?S)]) True,
           Encode (build_prompt ''What is machine learning?''),
           Decode (map of_char ''### Instruction:'' @ [rng (env ?S)]) True]\<rparr>)"
    by (rule demo_predict [where tk = "''vocab''"])
       (simp_all add: demo_loaded_eq demo_ext_def param_or_default_def demo_input_def
          prompt_rows_def rows_labelled_def)
  then have "fst (predict demo_lib demo_input None ?S)
      = Inr [(''candidates'', [''### Instruction:!''])]"
    by (simp add: demo_loaded_eq demo_ext_def char_of_33)
  moreover have "sublist ''### Instruction:'' (''### Instruction:'' @ ''!'')"
    by (rule sublist_append_rightI)
  ultimately show ?thesis
    unfolding S by (simp add: demo_load)
qed

section \<open>A load that fails\<close>

text \<open>
  C3, as the code has it. On an instance whose model attribute is unset, name the outcomes
  of the tokenizer loader and of the configuration loader in the order load_context calls
  them. If one of the three loading routines raises where load_context calls it, then
  load_context raises that routine's error, the model attribute is still unset, and every
  predict on an instance with these attributes raises. The tokenizer attribute is not
  part of the statement: it keeps whatever the run assigned before the failure.
\<close>

theorem failed_load_leaves_model_unset:
  assumes unset: "model (self s) = None"
    and path: "map_of (artifacts ctx) ''snapshot'' = Some path"
    and tok: "AutoTokenizer_from_pretrained lib path ''left'' (env s) = (r1, x1)"
    and cfg: "AutoConfig_from_pretrained lib path True x1 = (r2, x2)"
    and missing: "isl r1 \<or> isl r2 \<or>
       (\<exists>config. r2 = Inr config \<and>
          isl (fst (AutoModelForCausalLM_from_pretrained lib path config BFloat16 True x2)))"
  shows "\<exists>e s'. load_context lib ctx s = (Inl e, s') \<and>
           (r1 = Inl e \<or> r2 = Inl e \<or>
            (\<exists>config. r2 = Inr config \<and>
               fst (AutoModelForCausalLM_from_pretrained lib path config BFloat16 True x2) = Inl e)) \<and>
           model (self s') = None \<and>
           (\<forall>model_input params t.
              self t = self s' \<longrightarrow> isl (fst (predict lib model_input params t)))"
proof -
  have fails: "\<exists>e s'. load_context lib ctx s = (Inl e, s') \<and>
           (r1 = Inl e \<or> r2 = Inl e \<or>
            (\<exists>config. r2 = Inr config \<and>
               fst (AutoModelForCausalLM_from_pretrained lib path config BFloat16 True x2) = Inl e)) \<and>
           model (self s') = None"
  proof (cases r1)
    case (Inl e)
    with load_context_tokenizer_error [OF path, of lib s e x1] tok unset show ?thesis
      by simp
  next
    case tk: (Inr tk)
    show ?thesis
    proof (cases r2)
      case (Inl e)
      with load_context_config_error [OF path, of lib s tk x1 e x2] tok cfg tk unset show ?thesis
        by simp
    next
      case config: (Inr config)
      with missing tk
      have "isl (fst (AutoModelForCausalLM_from_pretrained lib path config BFloat16 True x2))"
        by simp
      then obtain e x3 where
        "AutoModelForCausalLM_from_pretrained lib path config BFloat16 True x2 = (Inl e, x3)"
        by (cases "AutoModelForCausalLM_from_pretrained lib path config BFloat16 True x2")
           (auto simp: isl_def)
      with load_context_model_error [OF path, of lib s tk x1 config x2 e x3] tok cfg tk config unset
      show ?thesis
        by simp
    qed
  qed
  then obtain e s' where "load_context lib ctx s = (Inl e, s')"
    and "r1 = Inl e \<or> r2 = Inl e \<or>
            (\<exists>config. r2 = Inr config \<and>
               fst (AutoModelForCausalLM_from_pretrained lib path config BFloat16 True x2) = Inl e)"
    and "model (self s') = None"
    by blast
  moreover have "\<forall>model_input params t.
      self t = self s' \<longrightarrow> isl (fst (predict lib model_input params t))"
    using \<open>model (self s') = None\<close> by (simp add: predict_needs_model)
  ultimately show ?thesis
    by blast
qed

theorem failed_load_leaves_model_unset_witness:
  "fst (load_context demo_lib demo_ctx
     (fresh \<lparr> files = [(''mpt-7b'', [(''tokenizer.json'', ''vocab''), (''config.json'', ''mpt'')])],
              rng = 33 \<rparr>)) = Inl (LibraryError ''pytorch_model.bin'') \<and>
   model (self (snd (load_context demo_lib demo_ctx
     (fresh \<lparr> files = [(''mpt-7b'', [(''tokenizer.json'', ''vocab''), (''config.json'', ''mpt'')])],
              rng = 33 \<rparr>)))) = None \<and>
   isl (fst (predict demo_lib demo_input None (snd (load_context demo_lib demo_ctx
     (fresh \<lparr> files = [(''mpt-7b'', [(''tokenizer.json'', ''vocab''), (''config.json'', ''mpt'')])],
              rng = 33 \<rparr>)))))"
proof -
  let ?X = "\<lparr> files = [(''mpt-7b'', [(''tokenizer.json'', ''vocab''), (''config.json'', ''mpt'')])],
              rng = 33 \<rparr>"
  let ?s = "fresh ?X :: (string, string) state"
  have unset: "model (self ?s) = None"
    by (simp add: fresh_def)
  have path: "map_of (artifacts demo_ctx) ''snapshot'' = Some ''mpt-7b''"
    by (simp add: demo_ctx_def)
  have tok: "AutoTokenizer_from_pretrained demo_lib ''mpt-7b'' ''left'' (env ?s) = (Inr ''vocab'', ?X)"
    by (simp add: demo_lib_def demo_read_def fresh_def)
  have cfg: "AutoConfig_from_pretrained demo_lib ''mpt-7b'' True ?X = (Inr ''mpt'', ?X)"
    by (simp add: demo_lib_def demo_read_def)
  have "fst (AutoModelForCausalLM_from_pretrained demo_lib ''mpt-7b'' ''mpt'' BFloat16 True ?X)
      = Inl (LibraryError ''pytorch_model.bin'')"
    by (simp add: demo_lib_def demo_read_def)
  then have missing: "isl (Inr ''vocab'' :: error + string) \<or> isl (Inr ''mpt'' :: error + string) \<or>
      (\<exists>config. (Inr ''mpt'' :: error + string) = Inr config \<and>
         isl (fst (AutoModelForCausalLM_from_pretrained demo_lib ''mpt-7b'' config BFloat16 True ?X)))"
    by simp
  from failed_load_leaves_model_unset [OF unset path tok cfg missing]
  obtain e s' where run: "load_context demo_lib demo_ctx ?s = (Inl e, s')"
    and err: "fst (AutoModelForCausalLM_from_pretrained demo_lib ''mpt-7b'' ''mpt'' BFloat16 True ?X)
                = Inl e"
    and unset': "model (self s') = None"
    and dead: "\<forall>model_input params t.
        self t = self s' \<longrightarrow> isl (fst (predict demo_lib model_input params t))"
    by auto
  from err have "e = LibraryError ''pytorch_model.bin''"
    by (simp add: demo_lib_def demo_read_def)
  with run unset' dead show ?thesis
    by simp
qed

text \<open>
  C3, as stated, fails: a directory with the tokenizer and the configuration but without
  the weights makes load_context raise after it has assigned self.tokenizer, so the
  instance is left partially initialised (a tokenizer, no model) and differs from a new one.
\<close>

theorem failed_load_partial_state_counterexample:
  "fst (load_context demo_lib demo_ctx
     (fresh \<lparr> files = [(''mpt-7b'', [(''tokenizer.json'', ''vocab''), (''config.json'', ''mpt'')])],
              rng = 33 \<rparr>)) = Inl (LibraryError ''pytorch_model.bin'') \<and>
   self (snd (load_context demo_lib demo_ctx
     (fresh \<lparr> files = [(''mpt-7b'', [(''tokenizer.json'', ''vocab''), (''config.json'', ''mpt'')])],
              rng = 33 \<rparr>))) = \<lparr> tokenizer = Some ''vocab'', model = None \<rparr> \<and>
   self (fresh \<lparr> files = [(''mpt-7b'', [(''tokenizer.json'', ''vocab''), (''config.json'', ''mpt'')])],
              rng = 33 \<rparr> :: (string, string) state) = \<lparr> tokenizer = None, model = None \<rparr>"
  by (simp add: demo_load_no_weights) (simp add: fresh_def)

section \<open>The artifact bundle is only read\<close>

text \<open>
  C6. The class touches the outside world through its calls into the library and through
  nothing else. So, for a library none of whose routines changes the directory at a path,
  neither load_context nor predict changes that directory: its files are after the run what
  they were before it, whether the run returns or raises.
\<close>

theorem adapter_keeps_bundle:
  assumes "library_keeps_bundle lib path"
  shows "bundle_at (env (snd (load_context lib ctx s))) path = bundle_at (env s) path \<and>
         bundle_at (env (snd (predict lib model_input params s))) path = bundle_at (env s) path"
  using load_context_keeps_bundle [OF assms, of "bundle_at (env s) path" ctx]
    predict_keeps_bundle [OF assms, of "bundle_at (env s) path" model_input params]
  by (simp add: preserves_def)

theorem adapter_keeps_bundle_witness:
  "bundle_at (env (snd (load_context demo_lib demo_ctx (fresh (demo_ext ''Learning from data.'' 33)))))
      ''mpt-7b'' = Some (demo_bundle ''Learning from data.'') \<and>
   bundle_at (env (snd (predict demo_lib demo_input None (demo_loaded ''Learning from data.'' 33))))
      ''mpt-7b'' = Some (demo_bundle ''Learning from data.'')"
  using adapter_keeps_bundle [where lib = demo_lib and path = "''mpt-7b''" and ctx = demo_ctx
          and s = "fresh (demo_ext ''Learning from data.'' 33)" and model_input = demo_input
          and params = None, OF demo_lib_keeps_bundle]
    adapter_keeps_bundle [where lib = demo_lib and path = "''mpt-7b''" and ctx = demo_ctx
          and s = "demo_loaded ''Learning from data.'' 33" and model_input = demo_input
          and params = None, OF demo_lib_keeps_bundle]
  by (simp add: bundle_at_def demo_loaded_eq demo_ext_def fresh_def)

section \<open>Sampling and the seed\<close>

text \<open>
  C7. Let the routines predict calls change nothing outside but the generator's state.
  Then two predict calls in sequence on the same input, the seed fixed to the same value
  before each, give the same outcome. And every generation call predict makes has
  do_sample on, so the outcome does depend on the generator's state: without fixing the
  seed the second call starts from the state the first one left.
\<close>

theorem predict_reproducible_with_fixed_seed:
  assumes "inference_changes_only_rng lib"
  shows "fst (predict lib model_input params
                (reseed seed (snd (predict lib model_input params (reseed seed s)))))
           = fst (predict lib model_input params (reseed seed s)) \<and>
         (\<exists>cs. trace (snd (predict lib model_input params s)) = trace s @ cs \<and>
               (\<forall>input do_sample t m. Generate input do_sample t m \<in> set cs \<longrightarrow> do_sample))"
proof
  let ?s1 = "reseed seed s"
  let ?s2 = "snd (predict lib model_input params ?s1)"
  have start: "self ?s1 = self ?s1 \<and> (\<exists>r. env ?s1 = (env ?s1)\<lparr>rng := r\<rparr>)"
    by (auto intro: exI [of _ "rng (env ?s1)"])
  from predict_changes_only_rng [OF assms, unfolded preserves_def, rule_format, OF start]
  have "self ?s2 = self ?s1 \<and> (\<exists>r. env ?s2 = (env ?s1)\<lparr>rng := r\<rparr>)" .
  then have "self (reseed seed ?s2) = self ?s1" and "env (reseed seed ?s2) = env ?s1"
    by (auto simp: reseed_def)
  then show "fst (predict lib model_input params (reseed seed ?s2))
      = fst (predict lib model_input params ?s1)"
    by (rule predict_result_ignores_log)
next
  from predict_log_extends [of lib model_input params s]
  obtain cs where cs: "trace (snd (predict lib model_input params s)) = trace s @ cs"
    by blast
  with predict_generate_call [OF cs] show "\<exists>cs. trace (snd (predict lib model_input params s)) = trace s @ cs \<and>
      (\<forall>input do_sample t m. Generate input do_sample t m \<in> set cs \<longrightarrow> do_sample)"
    by blast
qed

theorem predict_reproducible_with_fixed_seed_witness:
  "fst (predict demo_lib demo_input None
          (reseed 33 (snd (predict demo_lib demo_input None
                             (reseed 33 (demo_loaded ''Learning from data.'' 7))))))
     = Inr [(''candidates'', [''Learning from data.!''])] \<and>
   fst (predict demo_lib demo_input None (reseed 33 (demo_loaded ''Learning from data.'' 7)))
     = Inr [(''candidates'', [''Learning from data.!''])] \<and>
   fst (predict demo_lib demo_input None
          (snd (predict demo_lib demo_input None
                  (reseed 33 (demo_loaded ''Learning from data.'' 7)))))
     = Inr [(''candidates'', [''Learning from data.'' @ [CHR 0x22]])]"
proof -
  let ?W = "''Learning from data.''"
  let ?s1 = "reseed 33 (demo_loaded ?W 7)"
  let ?s2 = "snd (predict demo_lib demo_input None ?s1)"
  have prompt: "prompt_rows demo_input = Some [''What is machine learning?'']"
    by (simp add: demo_input_def prompt_rows_def rows_labelled_def)
  have t: "param_or_default None ''temperature'' (PyFloat (1 / 10)) = PyFloat (1 / 10)"
    by (simp add: param_or_default_def)
  have tk1: "tokenizer (self ?s1) = Some ''vocab''" and md1: "model (self ?s1) = Some ?W"
    and rng1: "rng (env ?s1) = 33"
    by (simp_all add: reseed_def demo_loaded_eq)
  have first: "predict demo_lib demo_input None ?s1 =
     (Inr [(''candidates'', [''Learning from data.!''])],
      ?s1\<lparr>env := (env ?s1)\<lparr>rng := 34\<rparr>,
          trace := trace ?s1 @
            [Encode (build_prompt ''What is machine learning?''),
             Generate [map of_char (build_prompt ''What is machine learning?'')] True
               (PyFloat (1 / 10)) (param_or_default None ''max_tokens'' (PyInt 1000)),
             Decode (map of_char (build_prompt ''What is machine learning?'' @ ?W) @ [33]) True,
             Encode (build_prompt ''What is machine learning?''),
             Decode (map of_char ?W @ [33]) True]\<rparr>)"
    by (subst demo_predict [OF prompt tk1 _ md1 t]) (simp_all add: rng1 char_of_33)
  then have r1: "fst (predict demo_lib demo_input None ?s1)
      = Inr [(''candidates'', [''Learning from data.!''])]"
    by simp
  from first have tk2: "tokenizer (self ?s2) = Some ''vocab''" and md2: "model (self ?s2) = Some ?W"
    and rng2: "rng (env ?s2) = 34"
    by (simp_all add: tk1 md1)
  have r2: "fst (predict demo_lib demo_input None ?s2)
      = Inr [(''candidates'', [''Learning from data.'' @ [CHR 0x22]])]"
    by (subst demo_predict [OF prompt tk2 _ md2 t]) (simp_all add: rng2 char_of_34)
  from predict_reproducible_with_fixed_seed [where lib = demo_lib and model_input = demo_input
      and params = None and seed = 33 and s = "demo_loaded ?W 7",
      OF demo_lib_changes_only_rng, THEN conjunct1] r1 r2
  show ?thesis
    by simp
qed

end
